theory Spec2Isabelle
  imports Complex_Main "HOL-Library.Char_ord" "HOL-Library.List_Lexorder" "HOL-Library.Multiset"
begin

section \<open>Data model\<close>

text \<open>
  Rows are the dictionaries the persistence layer hands to the engines.  A key that the
  source always reads with one and the same default (\<open>h.get('quantity', 0)\<close>) is a plain
  field whose value is that default when the key is absent; a key that is read with
  different defaults in different places is an \<open>option\<close> field (\<open>None\<close>: key absent).
  Python floats are idealised as real numbers.
\<close>

text \<open>
  The exceptions that matter: \<open>datetime.fromisoformat\<close> raises \<open>ValueError\<close> on a
  string it cannot read and \<open>TypeError\<close> on a non-string; subtracting or ordering two
  datetimes of which one is offset-naive and the other offset-aware raises \<open>TypeError\<close>;
  \<open>statistics.variance\<close> raises \<open>StatisticsError\<close>.
\<close>

datatype py_exception = ValueError | TypeError

datatype stats_error = StatisticsError

text \<open>
  A \<open>datetime\<close> is offset-naive (\<open>tzinfo\<close> is \<open>None\<close>) or offset-aware.  \<open>Naive us\<close> is
  the wall-clock reading in microseconds; \<open>Aware us off\<close> carries the wall-clock reading
  and its UTC offset, both in microseconds.  A \<open>timedelta\<close> is a number of microseconds.
  Two naive datetimes are subtracted and ordered by their readings, two aware ones as
  instants of UTC; one of each kind cannot be subtracted or ordered.
\<close>

datatype datetime = Naive int | Aware int int

fun is_naive :: "datetime \<Rightarrow> bool" where
  "is_naive (Naive us) = True"
| "is_naive (Aware us off) = False"

fun instant :: "datetime \<Rightarrow> int" where
  \<comment> \<open>the reading itself of a naive datetime, the UTC reading of an aware one\<close>
  "instant (Naive us) = us"
| "instant (Aware us off) = us - off"

definition sub_datetime :: "datetime \<Rightarrow> datetime \<Rightarrow> py_exception + int" where
  \<comment> \<open>\<open>a - b\<close>\<close>
  "sub_datetime a b =
     (if is_naive a = is_naive b then Inr (instant a - instant b) else Inl TypeError)"

definition less_datetime :: "datetime \<Rightarrow> datetime \<Rightarrow> py_exception + bool" where
  \<comment> \<open>\<open>a < b\<close>\<close>
  "less_datetime a b =
     (if is_naive a = is_naive b then Inr (instant a < instant b) else Inl TypeError)"

definition ge_datetime :: "datetime \<Rightarrow> datetime \<Rightarrow> py_exception + bool" where
  \<comment> \<open>\<open>a >= b\<close>\<close>
  "ge_datetime a b =
     (if is_naive a = is_naive b then Inr (instant a \<ge> instant b) else Inl TypeError)"

fun wall_clock :: "datetime \<Rightarrow> int" where
  "wall_clock (Naive us) = us"
| "wall_clock (Aware us off) = us"

definition date_of :: "datetime \<Rightarrow> int" where
  \<comment> \<open>\<open>d.date()\<close>: the day of the wall-clock reading, as a day number\<close>
  "date_of d = wall_clock d div 86400000000"

fun minus_timedelta :: "datetime \<Rightarrow> int \<Rightarrow> datetime" where
  \<comment> \<open>\<open>a - timedelta\<close>: the same kind of datetime\<close>
  "minus_timedelta (Naive us) delta = Naive (us - delta)"
| "minus_timedelta (Aware us off) delta = Aware (us - delta) off"

definition total_seconds :: "int \<Rightarrow> real" where
  "total_seconds delta = real_of_int delta / 1000000"

definition timedelta_days :: "int \<Rightarrow> int" where
  \<comment> \<open>\<open>timedelta(days=n)\<close>\<close>
  "timedelta_days n = n * 86400000000"

definition timedelta_hours :: "int \<Rightarrow> int" where
  \<comment> \<open>\<open>timedelta(hours=n)\<close>\<close>
  "timedelta_hours n = n * 3600000000"

record transaction =
  t_id :: string
  t_symbol :: string
  t_type :: string
  t_action :: string
  t_quantity :: real
  t_price :: real
  t_total :: real
  t_timestamp :: string

record holding =
  h_symbol :: string
  h_type :: string
  h_quantity :: real
  averagePrice :: real
  currentPrice :: "real option"

record checklist =
  completed_count :: int
  skipped :: bool
  created_at :: string

record mentor_trigger =
  pattern_type :: string
  trigger_symbol :: "string option"

record daily_score =
  ds_id :: string
  ds_date :: string
  risk_score :: "real option"
  discipline_score :: "real option"
  strategy_score :: "real option"
  psychology_score :: "real option"
  consistency_score :: "real option"
  trade_count :: int
  active_day :: bool
  computed_at :: string

text \<open>\<open>d.get(key, default)\<close> on an optional field.\<close>

definition get_or :: "'a option \<Rightarrow> 'a \<Rightarrow> 'a" where
  "get_or v d = (case v of Some x \<Rightarrow> x | None \<Rightarrow> d)"

section \<open>Timestamp parsing (the same \<open>_parse_timestamp\<close> in all three engines)\<close>

text \<open>
  \<open>str.replace(old, new)\<close>: every non-overlapping occurrence of \<open>old\<close>, from the left.
  For an empty \<open>old\<close> Python puts \<open>new\<close> before every character and at the end.
\<close>

function replace :: "string \<Rightarrow> string \<Rightarrow> string \<Rightarrow> string" where
  "replace old new [] = (if old = [] then new else [])"
| "replace old new (c # cs) =
     (if old = [] then new @ c # replace old new cs
      else if take (length old) (c # cs) = old
           then new @ replace old new (drop (length old) (c # cs))
           else c # replace old new cs)"
  by pat_completeness auto
termination
  by (relation "measure (\<lambda>(old, new, s). length s)") auto

text \<open>
  \<open>datetime.fromisoformat\<close> is the standard library's; the engines are given it as the
  parameter \<open>fromisoformat\<close>, which either raises or returns the datetime.
\<close>

type_synonym iso_parser = "string \<Rightarrow> py_exception + datetime"

definition parse_timestamp :: "iso_parser \<Rightarrow> string \<Rightarrow> datetime option" where
  "parse_timestamp fromisoformat ts =
     (if ts = [] then None
      else
        (case fromisoformat (replace ''+00:00'' [] (replace ''Z'' ''+00:00'' ts)) of
           Inr d \<Rightarrow> Some d
         | Inl ValueError \<Rightarrow> None
         | Inl TypeError \<Rightarrow> None))"

section \<open>Grouping by symbol\<close>

text \<open>
  The dictionaries \<open>buy_map\<close> and \<open>symbol_txns\<close> are filled by
  \<open>if sym not in d: d[sym] = []\<close>, \<open>d[sym].append(tx)\<close>; a Python dictionary keeps its keys
  in the order of their first insertion, so it is an association list.
\<close>

fun group_append :: "(string \<times> 'a list) list \<Rightarrow> string \<Rightarrow> 'a \<Rightarrow> (string \<times> 'a list) list" where
  "group_append [] key tx = [(key, [tx])]"
| "group_append ((k, vs) # m) key tx =
     (if k = key then (k, vs @ [tx]) # m else (k, vs) # group_append m key tx)"

definition group_by_symbol :: "transaction list \<Rightarrow> (string \<times> transaction list) list" where
  "group_by_symbol txs = foldl (\<lambda>m tx. group_append m (t_symbol tx) tx) [] txs"

definition get_list :: "(string \<times> 'a list) list \<Rightarrow> string \<Rightarrow> 'a list" where
  \<comment> \<open>\<open>d.get(sym, [])\<close>\<close>
  "get_list m key = (case map_of m key of Some vs \<Rightarrow> vs | None \<Rightarrow> [])"

section \<open>Score computers (scoring_engine.py)\<close>

definition holding_price :: "holding \<Rightarrow> real" where
  \<comment> \<open>\<open>h.get('currentPrice', h.get('averagePrice', 0))\<close>\<close>
  "holding_price h = get_or (currentPrice h) (averagePrice h)"

definition holding_value :: "holding \<Rightarrow> real" where
  "holding_value h = h_quantity h * holding_price h"

definition concentration_penalty :: "real \<Rightarrow> real \<Rightarrow> real \<Rightarrow> real" where
  \<comment> \<open>one round of the loop \<open>for val in position_values\<close>\<close>
  "concentration_penalty total_value score val =
     (let pct = (val / total_value) * 100
      in if pct > 25 then score - (pct - 25) * 1.5 else score)"

definition compute_risk_score :: "holding list \<Rightarrow> real \<Rightarrow> real" where
  "compute_risk_score holdings balance =
     (let position_values = map holding_value holdings;
          total_value = foldl (+) balance position_values
      in if total_value \<le> 0 then 50
         else
           let score = 100;
               num_holdings = length holdings;
               score = (if num_holdings < 3 then score - real (3 - num_holdings) * 15 else score);
               cash_pct = (balance / total_value) * 100;
               score = (if cash_pct < 10 then score - (10 - cash_pct) * 2 else score);
               score = foldl (concentration_penalty total_value) score position_values
           in max 0 (min 100 score))"

definition compute_discipline_score :: "checklist list \<Rightarrow> int \<Rightarrow> real" where
  "compute_discipline_score checklists trades =
     (if trades = 0 then 50
      else
        let total_checklists = length checklists
        in if total_checklists = 0 then 20
           else
             let full_completions =
                   length (filter (\<lambda>c. completed_count c = 5 \<and> \<not> skipped c) checklists);
                 avg_items =
                   real_of_int (sum_list (map completed_count checklists)) / real total_checklists;
                 skips = length (filter skipped checklists);
                 completion_ratio =
                   (if total_checklists > 0 then real full_completions / real total_checklists else 0);
                 score = completion_ratio * 60 + (avg_items / 5) * 40;
                 skip_ratio = (if total_checklists > 0 then real skips / real total_checklists else 0);
                 score = score - skip_ratio * 20
             in max 0 (min 100 score))"

record tally =
  wins :: nat
  losses :: nat
  total_profit :: real
  total_loss :: real

definition tally_sell :: "(string \<times> transaction list) list \<Rightarrow> tally \<Rightarrow> transaction \<Rightarrow> tally" where
  \<comment> \<open>one round of the first loop \<open>for sell in sells\<close>\<close>
  "tally_sell buy_map acc sell =
     (let sell_price = t_price sell;
          sym_buys = get_list buy_map (t_symbol sell)
      in if sym_buys = [] then acc
         else
           let avg_buy = sum_list (map t_price sym_buys) / real (length sym_buys)
           in if sell_price > avg_buy
              then acc\<lparr>wins := wins acc + 1,
                       total_profit := total_profit acc + (sell_price - avg_buy) * t_quantity sell\<rparr>
              else acc\<lparr>losses := losses acc + 1,
                       total_loss := total_loss acc + (avg_buy - sell_price) * t_quantity sell\<rparr>)"

definition sell_duration ::
  "iso_parser \<Rightarrow> (string \<times> transaction list) list \<Rightarrow> transaction \<Rightarrow>
   py_exception + real option" where
  \<comment> \<open>one round of the second loop \<open>for sell in sells\<close>: the days appended to \<open>durations\<close>, if
      any; the subtraction is outside any \<open>try\<close>\<close>
  "sell_duration fromisoformat buy_map sell =
     (case parse_timestamp fromisoformat (t_timestamp sell) of
        None \<Rightarrow> Inr None
      | Some sell_ts \<Rightarrow>
          (case get_list buy_map (t_symbol sell) of
             [] \<Rightarrow> Inr None
           | first_buy # _ \<Rightarrow>
               (case parse_timestamp fromisoformat (t_timestamp first_buy) of
                  None \<Rightarrow> Inr None
                | Some buy_ts \<Rightarrow>
                    (case sub_datetime sell_ts buy_ts of
                       Inl e \<Rightarrow> Inl e
                     | Inr delta \<Rightarrow> Inr (Some (total_seconds delta / 86400))))))"

fun durations_loop ::
  "iso_parser \<Rightarrow> (string \<times> transaction list) list \<Rightarrow> real list \<Rightarrow> transaction list \<Rightarrow>
   py_exception + real list" where
  \<comment> \<open>the second loop \<open>for sell in sells\<close>, filling \<open>durations\<close>\<close>
  "durations_loop fromisoformat buy_map durations [] = Inr durations"
| "durations_loop fromisoformat buy_map durations (sell # sells) =
     (case sell_duration fromisoformat buy_map sell of
        Inl e \<Rightarrow> Inl e
      | Inr None \<Rightarrow> durations_loop fromisoformat buy_map durations sells
      | Inr (Some days) \<Rightarrow> durations_loop fromisoformat buy_map (durations @ [days]) sells)"

definition duration_score_of :: "real list \<Rightarrow> real" where
  "duration_score_of durations =
     (if durations \<noteq> [] then
        let avg_duration = sum_list durations / real (length durations)
        in if avg_duration \<ge> 3 then 80 else if avg_duration \<ge> 1 then 60 else 30
      else 50)"

definition compute_strategy_score :: "iso_parser \<Rightarrow> transaction list \<Rightarrow> py_exception + real" where
  "compute_strategy_score fromisoformat transactions =
     (let sells = filter (\<lambda>t. t_action t = ''sell'') transactions;
          buys = filter (\<lambda>t. t_action t = ''buy'') transactions
      in if sells = [] then Inr 40
         else
           let buy_map = group_by_symbol buys;
               acc = foldl (tally_sell buy_map)
                       \<lparr>wins = 0, losses = 0, total_profit = 0, total_loss = 0\<rparr> sells;
               total_trades = wins acc + losses acc
           in if total_trades = 0 then Inr 40
              else
                let win_rate = real (wins acc) / real total_trades;
                    pl_ratio = (if total_loss acc > 0 then total_profit acc / total_loss acc else 2);
                    pl_ratio = min pl_ratio 3
                in (case durations_loop fromisoformat buy_map [] sells of
                      Inl e \<Rightarrow> Inl e
                    | Inr durations \<Rightarrow>
                        let duration_score = duration_score_of durations;
                            score = win_rate * 40 + (pl_ratio / 3) * 30 + (duration_score / 100) * 30
                        in Inr (max 0 (min 100 (score * 100 / 100)))))"

definition deductions :: "string \<Rightarrow> real" where
  \<comment> \<open>\<open>deductions.get(pattern, 5)\<close>\<close>
  "deductions pattern =
     (if pattern = ''fomo_buy'' then 10
      else if pattern = ''panic_sell'' then 15
      else if pattern = ''overtrading'' then 10
      else 5)"

definition compute_psychology_score :: "mentor_trigger list \<Rightarrow> real" where
  "compute_psychology_score mentor_triggers =
     (let score = foldl (\<lambda>score trigger. score - deductions (pattern_type trigger)) 100 mentor_triggers
      in max 0 (min 100 score))"

text \<open>
  \<open>statistics.variance\<close>: the sample variance; it raises \<open>StatisticsError\<close> on fewer than
  two data points.
\<close>

definition variance :: "real list \<Rightarrow> real option" where
  "variance xs =
     (if length xs < 2 then None
      else
        let mean = sum_list xs / real (length xs)
        in Some (sum_list (map (\<lambda>x. (x - mean) ^ 2) xs) / real (length xs - 1)))"

definition four_keys :: "(daily_score \<Rightarrow> real option) list" where
  \<comment> \<open>\<open>['risk_score', 'discipline_score', 'strategy_score', 'psychology_score']\<close>\<close>
  "four_keys = [risk_score, discipline_score, strategy_score, psychology_score]"

definition pooled_scores :: "daily_score list \<Rightarrow> real list" where
  "pooled_scores daily_scores_history =
     concat (map (\<lambda>ds. filter (\<lambda>val. val > 0) (map (\<lambda>key. get_or (key ds) 0) four_keys))
               daily_scores_history)"

definition stability_of :: "daily_score list \<Rightarrow> stats_error + real" where
  "stability_of daily_scores_history =
     (if length daily_scores_history \<ge> 3 then
        let all_scores = pooled_scores daily_scores_history
        in if length all_scores \<ge> 3 then
             (case variance all_scores of
                None \<Rightarrow> Inl StatisticsError
              | Some v \<Rightarrow> Inr ((max 0 (100 - v / 5) / 100) * 30))
           else Inr 30
      else Inr 30)"

definition is_drawdown_day :: "daily_score \<Rightarrow> bool" where
  "is_drawdown_day ds = (sum_list (map (\<lambda>k. get_or (k ds) 50) four_keys) / 4 < 30)"

definition compute_consistency_score :: "daily_score list \<Rightarrow> int \<Rightarrow> int \<Rightarrow> stats_error + real" where
  "compute_consistency_score daily_scores_history active_days total_days =
     (if total_days = 0 then Inr 50
      else
        let active_ratio = min (real_of_int active_days / real_of_int total_days) 1;
            active_component = active_ratio * 50
        in case stability_of daily_scores_history of
             Inl e \<Rightarrow> Inl e
           | Inr stability_component \<Rightarrow>
               let drawdown_days = length (filter is_drawdown_day daily_scores_history);
                   drawdown_ratio =
                     real drawdown_days / real (max (length daily_scores_history) 1);
                   drawdown_component = (1 - drawdown_ratio) * 20
               in Inr (max 0 (min 100 (active_component + stability_component + drawdown_component))))"

definition check_eligibility :: "int \<Rightarrow> int \<Rightarrow> bool" where
  "check_eligibility trades active_days = (trades \<ge> 25 \<or> active_days \<ge> 15)"

record data_sufficiency =
  insufficient_risk :: bool
  insufficient_discipline :: bool
  insufficient_strategy :: bool
  insufficient_psychology :: bool
  insufficient_consistency :: bool

definition compute_data_sufficiency ::
  "holding list \<Rightarrow> checklist list \<Rightarrow> transaction list \<Rightarrow> mentor_trigger list \<Rightarrow>
   daily_score list \<Rightarrow> int \<Rightarrow> data_sufficiency" where
  "compute_data_sufficiency holdings checklists transactions mentor_triggers
     daily_scores_history trades =
     (let sells = filter (\<lambda>t. t_action t = ''sell'') transactions
      in \<lparr>insufficient_risk = (length holdings = 0),
          insufficient_discipline = (trades = 0 \<or> length checklists = 0),
          insufficient_strategy = (length sells = 0),
          insufficient_psychology = (trades = 0),
          insufficient_consistency = (length daily_scores_history < 3)\<rparr>)"

text \<open>
  \<open>round(x, 1)\<close>: to the nearest multiple of one tenth, an exact tie to the even one.
\<close>

definition round1 :: "real \<Rightarrow> real" where
  "round1 x =
     (let y = x * 10;
          f = \<lfloor>y\<rfloor>;
          d = y - of_int f
      in of_int (if d < 1 / 2 then f else if d > 1 / 2 then f + 1
                 else if even f then f else f + 1) / 10)"

text \<open>What the score computers can raise.\<close>

datatype score_error = Raised py_exception | Stats stats_error

record all_scores =
  risk :: real
  discipline :: real
  strategy :: real
  psychology :: real
  consistency :: real
  eligible :: bool
  scores_trade_count :: int
  scores_active_days :: int
  insufficient_data :: data_sufficiency

definition compute_all_scores ::
  "iso_parser \<Rightarrow> holding list \<Rightarrow> real \<Rightarrow> checklist list \<Rightarrow> transaction list \<Rightarrow>
   mentor_trigger list \<Rightarrow> daily_score list \<Rightarrow> int \<Rightarrow> int \<Rightarrow> score_error + all_scores" where
  "compute_all_scores fromisoformat holdings balance checklists transactions mentor_triggers
     daily_scores_history active_days trades =
     (let is_eligible = check_eligibility trades active_days;
          risk_v = compute_risk_score holdings balance;
          discipline_v = compute_discipline_score checklists trades;
          discipline_v = compute_discipline_score checklists trades
      in (case compute_strategy_score fromisoformat transactions of
            Inl e \<Rightarrow> Inl (Raised e)
          | Inr strategy_v \<Rightarrow>
              let psychology_v = compute_psychology_score mentor_triggers
              in (case compute_consistency_score daily_scores_history active_days 30 of
                    Inl e \<Rightarrow> Inl (Stats e)
                  | Inr consistency_v \<Rightarrow>
                      Inr \<lparr>risk = round1 risk_v,
                           discipline = round1 discipline_v,
                           strategy = round1 strategy_v,
                           psychology = round1 psychology_v,
                           consistency = round1 consistency_v,
                           eligible = is_eligible,
                           scores_trade_count = trades,
                           scores_active_days = active_days,
                           insufficient_data =
                             compute_data_sufficiency holdings checklists transactions
                               mentor_triggers daily_scores_history trades\<rparr>)))"

section \<open>Badge evaluator (scoring_engine.py)\<close>

record badge_definition =
  bd_badge_type :: string
  bd_score :: "daily_score \<Rightarrow> real option"
  bd_threshold :: real
  bd_days :: nat
  bd_requires_sentiment :: bool

definition BADGE_DEFINITIONS :: "badge_definition list" where
  "BADGE_DEFINITIONS =
     [\<lparr>bd_badge_type = ''risk_guardian'', bd_score = risk_score, bd_threshold = 75,
        bd_days = 21, bd_requires_sentiment = False\<rparr>,
      \<lparr>bd_badge_type = ''discipline_master'', bd_score = discipline_score, bd_threshold = 80,
        bd_days = 21, bd_requires_sentiment = False\<rparr>,
      \<lparr>bd_badge_type = ''consistency_pro'', bd_score = consistency_score, bd_threshold = 70,
        bd_days = 21, bd_requires_sentiment = False\<rparr>,
      \<lparr>bd_badge_type = ''strategy_builder'', bd_score = strategy_score, bd_threshold = 70,
        bd_days = 21, bd_requires_sentiment = False\<rparr>,
      \<lparr>bd_badge_type = ''psychology_champion'', bd_score = psychology_score, bd_threshold = 75,
        bd_days = 21, bd_requires_sentiment = False\<rparr>,
      \<lparr>bd_badge_type = ''market_aware'', bd_score = psychology_score, bd_threshold = 70,
        bd_days = 21, bd_requires_sentiment = True\<rparr>]"

record badge_result =
  br_badge_type :: string
  br_earned :: bool
  br_active :: bool
  br_qualifying_days :: nat
  br_required_days :: nat

text \<open>
  One round of the loop of \<open>evaluate_badges\<close>.  The parameter \<open>mentor_triggers\<close> is
  \<open>Optional[List[Dict]]\<close> with default \<open>None\<close>.
\<close>

definition evaluate_badge ::
  "daily_score list \<Rightarrow> mentor_trigger list option \<Rightarrow> badge_definition \<Rightarrow> badge_result" where
  "evaluate_badge daily_scores mentor_triggers defn =
     (let threshold = bd_threshold defn;
          required_days = bd_days defn;
          qualifying_days =
            length (filter (\<lambda>ds. get_or (bd_score defn ds) 0 \<ge> threshold) daily_scores);
          earned = (qualifying_days \<ge> required_days);
          earned =
            (case mentor_triggers of
               Some triggers \<Rightarrow>
                 if bd_requires_sentiment defn \<and> earned then
                   let fomo_count =
                         length (filter (\<lambda>t. pattern_type t = ''sentiment_fomo'') triggers)
                   in if fomo_count > 0 then False else earned
                 else earned
             | None \<Rightarrow> earned)
      in \<lparr>br_badge_type = bd_badge_type defn,
          br_earned = earned,
          br_active = earned,
          br_qualifying_days = qualifying_days,
          br_required_days = required_days\<rparr>)"

definition evaluate_badges ::
  "daily_score list \<Rightarrow> mentor_trigger list option \<Rightarrow> badge_result list" where
  "evaluate_badges daily_scores mentor_triggers =
     map (evaluate_badge daily_scores mentor_triggers) BADGE_DEFINITIONS"

definition badge_result_of :: "string \<Rightarrow> badge_result list \<Rightarrow> badge_result option" where
  \<comment> \<open>the entry of a result list for one badge type\<close>
  "badge_result_of badge_type results = find (\<lambda>b. br_badge_type b = badge_type) results"

section \<open>Persistence (database.py)\<close>

text \<open>
  A table is the list of its rows.  SQLite raises \<open>IntegrityError\<close> when an insert breaks
  a uniqueness constraint that the statement's \<open>ON CONFLICT\<close> clause does not name; the
  constraint the clause names is looked at first.
\<close>

datatype db_error = IntegrityError

definition upsert_daily_score ::
  "daily_score list \<Rightarrow> string \<Rightarrow> string \<Rightarrow> real \<Rightarrow> real \<Rightarrow> real \<Rightarrow> real \<Rightarrow> real \<Rightarrow>
   int \<Rightarrow> bool \<Rightarrow> string \<Rightarrow> db_error + daily_score list" where
  "upsert_daily_score table score_id date risk_v discipline_v strategy_v psychology_v
     consistency_v trades is_active now =
     (if \<exists>r \<in> set table. ds_date r = date then
        Inr (map (\<lambda>r. if ds_date r = date
                       then r\<lparr>risk_score := Some risk_v,
                              discipline_score := Some discipline_v,
                              strategy_score := Some strategy_v,
                              psychology_score := Some psychology_v,
                              consistency_score := Some consistency_v,
                              trade_count := trades,
                              active_day := is_active,
                              computed_at := now\<rparr>
                       else r) table)
      else if \<exists>r \<in> set table. ds_id r = score_id then Inl IntegrityError
      else
        Inr (table @
             [\<lparr>ds_id = score_id, ds_date = date,
               risk_score = Some risk_v, discipline_score = Some discipline_v,
               strategy_score = Some strategy_v, psychology_score = Some psychology_v,
               consistency_score = Some consistency_v,
               trade_count = trades, active_day = is_active, computed_at = now\<rparr>]))"

definition get_daily_scores :: "daily_score list \<Rightarrow> string \<Rightarrow> daily_score list" where
  \<comment> \<open>\<open>SELECT * FROM daily_scores WHERE date >= cutoff ORDER BY date DESC\<close>\<close>
  "get_daily_scores table cutoff = rev (sort_key ds_date (filter (\<lambda>r. ds_date r \<ge> cutoff) table))"

record badge =
  b_id :: string
  b_badge_type :: string
  b_earned :: bool
  b_active :: bool
  b_qualifying_days :: nat
  first_earned_at :: "string option"
  last_active_at :: "string option"
  b_updated_at :: string

definition upsert_badge ::
  "badge list \<Rightarrow> string \<Rightarrow> string \<Rightarrow> bool \<Rightarrow> bool \<Rightarrow> nat \<Rightarrow> string option \<Rightarrow> string \<Rightarrow>
   db_error + badge list" where
  "upsert_badge table badge_id badge_type earned active qualifying_days first_earned updated_at =
     (if \<exists>r \<in> set table. b_badge_type r = badge_type then
        Inr (map (\<lambda>r. if b_badge_type r = badge_type
                       then r\<lparr>b_earned := earned,
                              b_active := active,
                              b_qualifying_days := qualifying_days,
                              first_earned_at :=
                                (case first_earned_at r of Some t \<Rightarrow> Some t | None \<Rightarrow> first_earned),
                              last_active_at :=
                                (if active then Some updated_at else last_active_at r),
                              b_updated_at := updated_at\<rparr>
                       else r) table)
      else if \<exists>r \<in> set table. b_id r = badge_id then Inl IntegrityError
      else
        Inr (table @
             [\<lparr>b_id = badge_id, b_badge_type = badge_type, b_earned = earned, b_active = active,
               b_qualifying_days = qualifying_days, first_earned_at = first_earned,
               last_active_at = (if active then Some updated_at else None),
               b_updated_at = updated_at\<rparr>]))"

definition first_earned_at_of :: "badge list \<Rightarrow> string \<Rightarrow> string option" where
  \<comment> \<open>the \<open>first_earned_at\<close> column of the row of one badge type, \<open>None\<close> for NULL or no row\<close>
  "first_earned_at_of table badge_type =
     (case find (\<lambda>r. b_badge_type r = badge_type) table of
        Some r \<Rightarrow> first_earned_at r
      | None \<Rightarrow> None)"

section \<open>Daily score aggregator (server.py)\<close>

record database =
  daily_scores_table :: "daily_score list"
  badges_table :: "badge list"

text \<open>
  What one run reads from the clock and from the tables it does not write:
  \<open>run_today\<close> is \<open>utcnow().date().isoformat()\<close>, \<open>run_cutoff\<close> is
  \<open>(utcnow() - timedelta(days=30)).isoformat()\<close>, \<open>run_cutoff_date\<close> its date part (used by
  \<open>get_daily_scores(30)\<close>), \<open>run_now\<close> is \<open>utcnow().isoformat()\<close>; the checklists and the
  triggers are the results of \<open>get_checklists_raw(30)\<close> and \<open>get_mentor_triggers_raw(30)\<close>.
\<close>

record run_inputs =
  run_today :: string
  run_cutoff :: string
  run_cutoff_date :: string
  run_now :: string
  run_transactions :: "transaction list"
  run_holdings :: "holding list"
  run_balance :: real
  run_checklists :: "checklist list"
  run_mentor_triggers :: "mentor_trigger list"

datatype run_error = Score score_error | Db db_error

fun update_badges :: "string \<Rightarrow> badge list \<Rightarrow> badge_result list \<Rightarrow> db_error + badge list" where
  \<comment> \<open>the loop \<open>for b in badge_results\<close>\<close>
  "update_badges now table [] = Inr table"
| "update_badges now table (b # bs) =
     (case upsert_badge table (''badge-'' @ br_badge_type b) (br_badge_type b) (br_earned b)
             (br_active b) (br_qualifying_days b) (if br_earned b then Some now else None) now of
        Inl e \<Rightarrow> Inl e
      | Inr table' \<Rightarrow> update_badges now table' bs)"

definition compute_daily_scores_internal ::
  "iso_parser \<Rightarrow> run_inputs \<Rightarrow> database \<Rightarrow> run_error + (database \<times> all_scores \<times> badge_result list)" where
  "compute_daily_scores_internal fromisoformat inp db =
     (let today = run_today inp;
          transactions = run_transactions inp;
          mentor_triggers = run_mentor_triggers inp;
          daily_history = get_daily_scores (daily_scores_table db) (run_cutoff_date inp);
          recent_txns = filter (\<lambda>t. t_timestamp t \<ge> run_cutoff inp) transactions;
          trades = int (length recent_txns);
          active_dates =
            remdups (filter (\<lambda>ts. ts \<noteq> []) (map (\<lambda>t. take 10 (t_timestamp t)) recent_txns));
          active_days = int (length active_dates)
      in (case compute_all_scores fromisoformat (run_holdings inp) (run_balance inp)
                (run_checklists inp) recent_txns mentor_triggers daily_history active_days trades of
           Inl e \<Rightarrow> Inl (Score e)
         | Inr scores \<Rightarrow>
             (case upsert_daily_score (daily_scores_table db) (''ds-'' @ today) today
                     (risk scores) (discipline scores) (strategy scores) (psychology scores)
                     (consistency scores) trades (active_days > 0) (run_now inp) of
                Inl e \<Rightarrow> Inl (Db e)
              | Inr scores_table \<Rightarrow>
                  let updated_daily = get_daily_scores scores_table (run_cutoff_date inp);
                      badge_results = evaluate_badges updated_daily (Some mentor_triggers)
                  in (case update_badges (run_now inp) (badges_table db) badge_results of
                        Inl e \<Rightarrow> Inl (Db e)
                      | Inr badge_rows \<Rightarrow>
                          Inr (\<lparr>daily_scores_table = scores_table, badges_table = badge_rows\<rparr>,
                               scores, badge_results)))))"

text \<open>
  A call of \<open>upsert_badge\<close> by its arguments, and the table it leaves: a statement that
  raises changes nothing.
\<close>

record badge_write =
  w_badge_id :: string
  w_badge_type :: string
  w_earned :: bool
  w_active :: bool
  w_qualifying_days :: nat
  w_first_earned_at :: "string option"
  w_updated_at :: string

definition table_after_upsert :: "badge list \<Rightarrow> badge_write \<Rightarrow> badge list" where
  "table_after_upsert table w =
     (case upsert_badge table (w_badge_id w) (w_badge_type w) (w_earned w) (w_active w)
             (w_qualifying_days w) (w_first_earned_at w) (w_updated_at w) of
        Inr table' \<Rightarrow> table'
      | Inl e \<Rightarrow> table)"

text \<open>
  Runs of the aggregator one after another (the scheduler's and the ones asked for), each on
  the database the one before left; and the values a database stores for one date.
\<close>

fun run_all :: "iso_parser \<Rightarrow> database \<Rightarrow> run_inputs list \<Rightarrow> run_error + database" where
  "run_all fromisoformat db [] = Inr db"
| "run_all fromisoformat db (inp # inps) =
     (case compute_daily_scores_internal fromisoformat inp db of
        Inl e \<Rightarrow> Inl e
      | Inr (db', _, _) \<Rightarrow> run_all fromisoformat db' inps)"

definition stored_scores ::
  "database \<Rightarrow> string \<Rightarrow>
   (real option \<times> real option \<times> real option \<times> real option \<times> real option \<times> int \<times> bool) list" where
  "stored_scores db date =
     map (\<lambda>r. (risk_score r, discipline_score r, strategy_score r, psychology_score r,
                consistency_score r, trade_count r, active_day r))
       (filter (\<lambda>r. ds_date r = date) (daily_scores_table db))"

text \<open>
  What a run reads on an account that has never traded: the default balance of 100000
  (\<open>DEFAULT_BALANCE\<close>) and empty tables.
\<close>

definition idle_account_run :: "string \<Rightarrow> string \<Rightarrow> string \<Rightarrow> string \<Rightarrow> run_inputs" where
  "idle_account_run today cutoff cutoff_date now =
     \<lparr>run_today = today, run_cutoff = cutoff, run_cutoff_date = cutoff_date, run_now = now,
      run_transactions = [], run_holdings = [], run_balance = 100000, run_checklists = [],
      run_mentor_triggers = []\<rparr>"

section \<open>The strategy score as the specification words it\<close>

text \<open>
  The specification's reading of the strategy score, to be compared with
  \<open>compute_strategy_score\<close>: per sell, the flat mean of all buy prices of its symbol decides
  win or loss; sells of a symbol never bought are left out.  Which buy is the ``first buy''
  of a symbol is the parameter \<open>first_buy_time\<close>.
\<close>

definition buys_of_symbol :: "transaction list \<Rightarrow> string \<Rightarrow> transaction list" where
  "buys_of_symbol txs s = filter (\<lambda>t. t_action t = ''buy'' \<and> t_symbol t = s) txs"

definition flat_mean_buy_price :: "transaction list \<Rightarrow> string \<Rightarrow> real" where
  "flat_mean_buy_price txs s =
     sum_list (map t_price (buys_of_symbol txs s)) / real (length (buys_of_symbol txs s))"

definition scored_sells :: "transaction list \<Rightarrow> transaction list" where
  "scored_sells txs =
     filter (\<lambda>t. t_action t = ''sell'' \<and> buys_of_symbol txs (t_symbol t) \<noteq> []) txs"

definition is_win :: "transaction list \<Rightarrow> transaction \<Rightarrow> bool" where
  "is_win txs sell = (t_price sell > flat_mean_buy_price txs (t_symbol sell))"

definition spec_win_rate :: "transaction list \<Rightarrow> real" where
  "spec_win_rate txs =
     real (length (filter (is_win txs) (scored_sells txs))) / real (length (scored_sells txs))"

definition spec_total_profit :: "transaction list \<Rightarrow> real" where
  "spec_total_profit txs =
     sum_list (map (\<lambda>sell. (t_price sell - flat_mean_buy_price txs (t_symbol sell)) * t_quantity sell)
                 (filter (is_win txs) (scored_sells txs)))"

definition spec_total_loss :: "transaction list \<Rightarrow> real" where
  "spec_total_loss txs =
     sum_list (map (\<lambda>sell. (flat_mean_buy_price txs (t_symbol sell) - t_price sell) * t_quantity sell)
                 (filter (\<lambda>sell. \<not> is_win txs sell) (scored_sells txs)))"

definition spec_pl_ratio :: "transaction list \<Rightarrow> real" where
  "spec_pl_ratio txs =
     (if spec_total_loss txs = 0 then 2
      else min (spec_total_profit txs / spec_total_loss txs) 3)"

definition spec_durations ::
  "(transaction list \<Rightarrow> datetime option) \<Rightarrow> iso_parser \<Rightarrow> transaction list \<Rightarrow> real list" where
  "spec_durations first_buy_time fromisoformat txs =
     List.map_filter
       (\<lambda>sell. case parse_timestamp fromisoformat (t_timestamp sell) of
                 None \<Rightarrow> None
               | Some sell_ts \<Rightarrow>
                   (case first_buy_time (buys_of_symbol txs (t_symbol sell)) of
                      None \<Rightarrow> None
                    | Some buy_ts \<Rightarrow>
                        Some (total_seconds (instant sell_ts - instant buy_ts) / 86400)))
       (filter (\<lambda>t. t_action t = ''sell'') txs)"

definition spec_duration_score :: "real list \<Rightarrow> real" where
  "spec_duration_score durations =
     (if durations = [] then 50
      else if sum_list durations / real (length durations) \<ge> 3 then 80
      else if sum_list durations / real (length durations) \<ge> 1 then 60
      else 30)"

definition strategy_spec ::
  "(transaction list \<Rightarrow> datetime option) \<Rightarrow> iso_parser \<Rightarrow> transaction list \<Rightarrow> real" where
  "strategy_spec first_buy_time fromisoformat txs =
     max 0 (min 100
       (spec_win_rate txs * 40 + (spec_pl_ratio txs / 3) * 30
        + (spec_duration_score (spec_durations first_buy_time fromisoformat txs) / 100) * 30))"

text \<open>
  Two readings of ``first buy'': the buy that stands first in the list, and the buy that
  is earliest in time among those whose timestamp parses.
\<close>

definition first_listed_buy_time :: "iso_parser \<Rightarrow> transaction list \<Rightarrow> datetime option" where
  "first_listed_buy_time fromisoformat buys =
     (case buys of [] \<Rightarrow> None | b # _ \<Rightarrow> parse_timestamp fromisoformat (t_timestamp b))"

definition earliest_buy_time :: "iso_parser \<Rightarrow> transaction list \<Rightarrow> datetime option" where
  "earliest_buy_time fromisoformat buys =
     (case List.map_filter (\<lambda>b. parse_timestamp fromisoformat (t_timestamp b)) buys of
        [] \<Rightarrow> None
      | t # ts \<Rightarrow> Some (foldl (\<lambda>a b. if instant b < instant a then b else a) t ts))"

text \<open>
  When the code's subtraction \<open>sell_ts - buy_ts\<close> raises: the sell's timestamp and the
  timestamp of the buy that stands first among the buys of its symbol both parse, one
  offset-naive and the other offset-aware.  The loop that subtracts is reached when some
  sell has a buy of its symbol.
\<close>

definition duration_raises :: "iso_parser \<Rightarrow> transaction list \<Rightarrow> transaction \<Rightarrow> bool" where
  "duration_raises fromisoformat txs sell =
     (case parse_timestamp fromisoformat (t_timestamp sell) of
        None \<Rightarrow> False
      | Some sell_ts \<Rightarrow>
          (case first_listed_buy_time fromisoformat (buys_of_symbol txs (t_symbol sell)) of
             None \<Rightarrow> False
           | Some buy_ts \<Rightarrow> is_naive sell_ts \<noteq> is_naive buy_ts))"

definition strategy_raises :: "iso_parser \<Rightarrow> transaction list \<Rightarrow> bool" where
  "strategy_raises fromisoformat txs =
     (scored_sells txs \<noteq> []
      \<and> (\<exists>sell \<in> set (filter (\<lambda>t. t_action t = ''sell'') txs).
            duration_raises fromisoformat txs sell))"

definition all_naive :: "iso_parser \<Rightarrow> transaction list \<Rightarrow> bool" where
  \<comment> \<open>every timestamp that parses is offset-naive, as the timestamps the server writes are\<close>
  "all_naive fromisoformat txs =
     (\<forall>t \<in> set txs. case parse_timestamp fromisoformat (t_timestamp t) of
                          None \<Rightarrow> True
                        | Some d \<Rightarrow> is_naive d)"


section \<open>Mentor pattern detectors (mentor_engine.py)\<close>

text \<open>
  An alert's message is \<open>PATTERNS[...]['message'].format(...)\<close>; it is kept as the pattern
  with the arguments that go into it.  The detectors read the clock by
  \<open>datetime.utcnow()\<close>, an offset-naive datetime; its reading in microseconds is their
  parameter \<open>now\<close>.  \<open>get_cached_sentiment\<close> belongs to the sentiment collaborator; the
  detectors are given it as a lookup that returns a cached entry, returns \<open>None\<close>, or
  raises.
\<close>

datatype alert_message =
    FomoBuyMessage string
  | PanicSellMessage string real int
  | OvertradingMessage nat
  | HoldingLosersMessage string real int
  | SentimentFomoMessage string real

record alert =
  alert_pattern_type :: string
  alert_severity :: string
  alert_symbol :: "string option"
  alert_message :: alert_message
  alert_sentiment_mood :: "string option"

record cached_sentiment =
  positive_pct :: real
  mood :: "string option"

datatype lookup_failure = RuntimeError | OtherException

type_synonym sentiment_lookup = "string \<Rightarrow> lookup_failure + cached_sentiment option"

definition parses :: "iso_parser \<Rightarrow> transaction \<Rightarrow> bool" where
  \<comment> \<open>the transaction's timestamp is one \<open>_parse_timestamp\<close> returns a value for\<close>
  "parses fromisoformat tx = (parse_timestamp fromisoformat (t_timestamp tx) \<noteq> None)"

definition timestamp_at_least :: "iso_parser \<Rightarrow> datetime \<Rightarrow> transaction \<Rightarrow> py_exception + bool" where
  \<comment> \<open>\<open>_parse_timestamp(ts) and _parse_timestamp(ts) >= bound\<close>\<close>
  "timestamp_at_least fromisoformat bound tx =
     (case parse_timestamp fromisoformat (t_timestamp tx) of
        None \<Rightarrow> Inr False
      | Some ts \<Rightarrow> ge_datetime ts bound)"

text \<open>
  A list comprehension \<open>[x for x in xs if p(x)]\<close> whose condition can raise, and a loop
  \<open>for x in xs\<close> that appends to \<open>alerts\<close> and whose body can raise: the first exception
  ends them.
\<close>

fun filter_raising :: "('a \<Rightarrow> py_exception + bool) \<Rightarrow> 'a list \<Rightarrow> py_exception + 'a list" where
  "filter_raising p [] = Inr []"
| "filter_raising p (x # xs) =
     (case p x of
        Inl e \<Rightarrow> Inl e
      | Inr keep \<Rightarrow>
          (case filter_raising p xs of
             Inl e \<Rightarrow> Inl e
           | Inr ys \<Rightarrow> Inr (if keep then x # ys else ys)))"

fun collect_alerts ::
  "('a \<Rightarrow> py_exception + alert list) \<Rightarrow> alert list \<Rightarrow> 'a list \<Rightarrow> py_exception + alert list" where
  "collect_alerts body alerts [] = Inr alerts"
| "collect_alerts body alerts (x # xs) =
     (case body x of
        Inl e \<Rightarrow> Inl e
      | Inr found \<Rightarrow> collect_alerts body (alerts @ found) xs)"

fun fomo_scan ::
  "iso_parser \<Rightarrow> int \<Rightarrow> real list \<Rightarrow> transaction list \<Rightarrow> transaction list \<Rightarrow>
   py_exception + (real list \<times> transaction list)" where
  \<comment> \<open>the loop \<open>for tx in txns\<close>, filling \<open>prices_30d\<close> and \<open>recent_buys\<close>\<close>
  "fomo_scan fromisoformat now prices_30d recent_buys [] = Inr (prices_30d, recent_buys)"
| "fomo_scan fromisoformat now prices_30d recent_buys (tx # txns) =
     (case parse_timestamp fromisoformat (t_timestamp tx) of
        None \<Rightarrow> fomo_scan fromisoformat now prices_30d recent_buys txns
      | Some ts \<Rightarrow>
          (case ge_datetime ts (minus_timedelta (Naive now) (timedelta_days 30)) of
             Inl e \<Rightarrow> Inl e
           | Inr in_30d \<Rightarrow>
               let prices_30d = (if in_30d then prices_30d @ [t_price tx] else prices_30d)
               in if t_action tx = ''buy'' then
                    (case ge_datetime ts (minus_timedelta (Naive now) (timedelta_hours 48)) of
                       Inl e \<Rightarrow> Inl e
                     | Inr in_48h \<Rightarrow>
                         fomo_scan fromisoformat now prices_30d
                           (if in_48h then recent_buys @ [tx] else recent_buys) txns)
                  else fomo_scan fromisoformat now prices_30d recent_buys txns))"

definition fomo_buy_for_symbol ::
  "iso_parser \<Rightarrow> int \<Rightarrow> string \<Rightarrow> transaction list \<Rightarrow> py_exception + alert list" where
  \<comment> \<open>the body of \<open>for sym, txns in symbol_txns.items()\<close>: the alerts it appends; the alert does
      not depend on which recent buy breaks the inner loop\<close>
  "fomo_buy_for_symbol fromisoformat now sy txns =
     (case fomo_scan fromisoformat now [] [] txns of
        Inl e \<Rightarrow> Inl e
      | Inr (prices_30d, recent_buys) \<Rightarrow>
          if length prices_30d < 3 \<or> recent_buys = [] then Inr []
          else
            let avg_price = sum_list prices_30d / real (length prices_30d)
            in if \<exists>buy \<in> set recent_buys. avg_price > 0 \<and> t_price buy > avg_price * 1.15
               then Inr [\<lparr>alert_pattern_type = ''fomo_buy'', alert_severity = ''warning'',
                          alert_symbol = Some sy, alert_message = FomoBuyMessage sy,
                          alert_sentiment_mood = None\<rparr>]
               else Inr [])"

definition detect_fomo_buy ::
  "iso_parser \<Rightarrow> int \<Rightarrow> transaction list \<Rightarrow> py_exception + alert list" where
  "detect_fomo_buy fromisoformat now transactions =
     collect_alerts (\<lambda>(sy, txns). fomo_buy_for_symbol fromisoformat now sy txns) []
       (group_by_symbol transactions)"

fun panic_buy_scan ::
  "iso_parser \<Rightarrow> string \<Rightarrow> datetime \<Rightarrow> real \<Rightarrow> transaction list \<Rightarrow>
   py_exception + alert option" where
  \<comment> \<open>the loop \<open>for buy in buys\<close>: the alert it breaks with, \<open>None\<close> when it runs to its end\<close>
  "panic_buy_scan fromisoformat sy sell_ts sell_price [] = Inr None"
| "panic_buy_scan fromisoformat sy sell_ts sell_price (buy # buys) =
     (case parse_timestamp fromisoformat (t_timestamp buy) of
        None \<Rightarrow> panic_buy_scan fromisoformat sy sell_ts sell_price buys
      | Some buy_ts \<Rightarrow>
          if t_price buy \<le> 0 then panic_buy_scan fromisoformat sy sell_ts sell_price buys
          else
            (case sub_datetime sell_ts buy_ts of
               Inl e \<Rightarrow> Inl e
             | Inr delta \<Rightarrow>
                 let hours_diff = total_seconds delta / 3600;
                     loss_pct = ((sell_price - t_price buy) / t_price buy) * 100
                 in if 0 < hours_diff \<and> hours_diff \<le> 48 \<and> loss_pct < - 10
                    then Inr (Some \<lparr>alert_pattern_type = ''panic_sell'',
                                    alert_severity = ''critical'',
                                    alert_symbol = Some sy,
                                    alert_message = PanicSellMessage sy \<bar>loss_pct\<bar> \<lfloor>hours_diff\<rfloor>,
                                    alert_sentiment_mood = None\<rparr>)
                    else panic_buy_scan fromisoformat sy sell_ts sell_price buys))"

fun panic_sell_scan ::
  "iso_parser \<Rightarrow> int \<Rightarrow> string \<Rightarrow> transaction list \<Rightarrow> transaction list \<Rightarrow>
   py_exception + alert option" where
  \<comment> \<open>the loop \<open>for sell in sells\<close>: \<open>else: continue\<close> after an inner loop that ran to its end,
      \<open>break\<close> after one that broke\<close>
  "panic_sell_scan fromisoformat now sy buys [] = Inr None"
| "panic_sell_scan fromisoformat now sy buys (sell # sells) =
     (case parse_timestamp fromisoformat (t_timestamp sell) of
        None \<Rightarrow> panic_sell_scan fromisoformat now sy buys sells
      | Some sell_ts \<Rightarrow>
          (case less_datetime sell_ts (minus_timedelta (Naive now) (timedelta_days 7)) of
             Inl e \<Rightarrow> Inl e
           | Inr too_old \<Rightarrow>
               if too_old then panic_sell_scan fromisoformat now sy buys sells
               else
                 (case panic_buy_scan fromisoformat sy sell_ts (t_price sell) buys of
                    Inl e \<Rightarrow> Inl e
                  | Inr None \<Rightarrow> panic_sell_scan fromisoformat now sy buys sells
                  | Inr (Some a) \<Rightarrow> Inr (Some a))))"

definition panic_sell_for_symbol ::
  "iso_parser \<Rightarrow> int \<Rightarrow> string \<Rightarrow> transaction list \<Rightarrow> py_exception + alert list" where
  \<comment> \<open>the body of \<open>for sym, txns in symbol_txns.items()\<close>: the alerts it appends\<close>
  "panic_sell_for_symbol fromisoformat now sy txns =
     (let buys = filter (\<lambda>t. t_action t = ''buy'') txns;
          sells = filter (\<lambda>t. t_action t = ''sell'') txns
      in case panic_sell_scan fromisoformat now sy buys sells of
           Inl e \<Rightarrow> Inl e
         | Inr None \<Rightarrow> Inr []
         | Inr (Some a) \<Rightarrow> Inr [a])"

definition detect_panic_sell ::
  "iso_parser \<Rightarrow> int \<Rightarrow> transaction list \<Rightarrow> py_exception + alert list" where
  "detect_panic_sell fromisoformat now transactions =
     collect_alerts (\<lambda>(sy, txns). panic_sell_for_symbol fromisoformat now sy txns) []
       (group_by_symbol transactions)"

definition detect_overtrading ::
  "iso_parser \<Rightarrow> int \<Rightarrow> transaction list \<Rightarrow> py_exception + alert list" where
  "detect_overtrading fromisoformat now transactions =
     (let day_ago = minus_timedelta (Naive now) (timedelta_hours 24)
      in case filter_raising (timestamp_at_least fromisoformat day_ago) transactions of
           Inl e \<Rightarrow> Inl e
         | Inr recent \<Rightarrow>
             if length recent > 5
             then Inr [\<lparr>alert_pattern_type = ''overtrading'', alert_severity = ''warning'',
                        alert_symbol = None, alert_message = OvertradingMessage (length recent),
                        alert_sentiment_mood = None\<rparr>]
             else Inr [])"

text \<open>
  \<open>min\<close> over the parsed timestamps, \<open>default=None\<close>: it keeps the first value and replaces it
  by each later one that is less.
\<close>

fun min_datetime :: "datetime \<Rightarrow> datetime list \<Rightarrow> py_exception + datetime" where
  "min_datetime m [] = Inr m"
| "min_datetime m (x # xs) =
     (case less_datetime x m of
        Inl e \<Rightarrow> Inl e
      | Inr is_less \<Rightarrow> min_datetime (if is_less then x else m) xs)"

definition min_parsed_timestamp ::
  "iso_parser \<Rightarrow> transaction list \<Rightarrow> py_exception + datetime option" where
  \<comment> \<open>\<open>min((_parse_timestamp(t...) for t in buys if _parse_timestamp(t...)), default=None)\<close>\<close>
  "min_parsed_timestamp fromisoformat buys =
     (case List.map_filter (\<lambda>t. parse_timestamp fromisoformat (t_timestamp t)) buys of
        [] \<Rightarrow> Inr None
      | ts # rest \<Rightarrow>
          (case min_datetime ts rest of
             Inl e \<Rightarrow> Inl e
           | Inr earliest \<Rightarrow> Inr (Some earliest)))"

definition holding_loser_alert ::
  "iso_parser \<Rightarrow> int \<Rightarrow> transaction list \<Rightarrow> holding \<Rightarrow> py_exception + alert list" where
  \<comment> \<open>the body of \<open>for h in holdings\<close>: the alerts it appends\<close>
  "holding_loser_alert fromisoformat now transactions h =
     (let sy = h_symbol h;
          avg_price = averagePrice h;
          current_price = get_or (currentPrice h) avg_price
      in if avg_price \<le> 0 then Inr []
         else
           let loss_pct = ((current_price - avg_price) / avg_price) * 100
           in if loss_pct \<ge> - 20 then Inr []
              else
                let buys = filter (\<lambda>t. t_symbol t = sy \<and> t_action t = ''buy'') transactions
                in if buys = [] then Inr []
                   else
                     (case min_parsed_timestamp fromisoformat buys of
                        Inl e \<Rightarrow> Inl e
                      | Inr None \<Rightarrow> Inr []
                      | Inr (Some earliest_ts) \<Rightarrow>
                          (case sub_datetime (Naive now) earliest_ts of
                             Inl e \<Rightarrow> Inl e
                           | Inr held \<Rightarrow>
                               let days_held = held div 86400000000
                               in if days_held \<ge> 14
                                  then Inr [\<lparr>alert_pattern_type = ''holding_losers'',
                                             alert_severity = ''info'', alert_symbol = Some sy,
                                             alert_message =
                                               HoldingLosersMessage sy \<bar>loss_pct\<bar> days_held,
                                             alert_sentiment_mood = None\<rparr>]
                                  else Inr [])))"

definition detect_holding_losers ::
  "iso_parser \<Rightarrow> int \<Rightarrow> holding list \<Rightarrow> transaction list \<Rightarrow> py_exception + alert list" where
  "detect_holding_losers fromisoformat now holdings transactions =
     collect_alerts (holding_loser_alert fromisoformat now transactions) [] holdings"

fun sentiment_scan :: "sentiment_lookup \<Rightarrow> string list \<Rightarrow> transaction list \<Rightarrow> alert list" where
  \<comment> \<open>the loop \<open>for buy in recent_buys\<close> with its set \<open>checked_symbols\<close>, inside
      \<open>try: ... except Exception\<close>: an exception leaves \<open>alerts\<close> as it is, empty\<close>
  "sentiment_scan get_cached_sentiment checked_symbols [] = []"
| "sentiment_scan get_cached_sentiment checked_symbols (buy # buys) =
     (if t_symbol buy \<in> set checked_symbols
      then sentiment_scan get_cached_sentiment checked_symbols buys
      else
        (case get_cached_sentiment (t_symbol buy) of
           Inl e \<Rightarrow> []
         | Inr None \<Rightarrow> sentiment_scan get_cached_sentiment (t_symbol buy # checked_symbols) buys
         | Inr (Some cached) \<Rightarrow>
             if positive_pct cached > 70
             then [\<lparr>alert_pattern_type = ''sentiment_fomo'', alert_severity = ''warning'',
                     alert_symbol = Some (t_symbol buy),
                     alert_message = SentimentFomoMessage (t_symbol buy) (positive_pct cached),
                     alert_sentiment_mood = Some (get_or (mood cached) ''positive'')\<rparr>]
             else sentiment_scan get_cached_sentiment (t_symbol buy # checked_symbols) buys))"

definition recent_buy :: "iso_parser \<Rightarrow> datetime \<Rightarrow> transaction \<Rightarrow> py_exception + bool" where
  \<comment> \<open>\<open>t.get('action') == 'buy' and _parse_timestamp(ts) and _parse_timestamp(ts) >= bound\<close>\<close>
  "recent_buy fromisoformat bound t =
     (if t_action t = ''buy'' then timestamp_at_least fromisoformat bound t else Inr False)"

definition detect_sentiment_fomo ::
  "iso_parser \<Rightarrow> int \<Rightarrow> sentiment_lookup \<Rightarrow> transaction list \<Rightarrow> py_exception + alert list" where
  "detect_sentiment_fomo fromisoformat now get_cached_sentiment transactions =
     (case filter_raising
             (recent_buy fromisoformat (minus_timedelta (Naive now) (timedelta_hours 48)))
             transactions of
        Inl e \<Rightarrow> Inl e
      | Inr recent_buys \<Rightarrow>
          if recent_buys = [] then Inr []
          else Inr (sentiment_scan get_cached_sentiment [] recent_buys))"

text \<open>
  The pair the panic-sell detector looks for: a sell no older than seven days and a buy of
  the same symbol, at a positive price, more than no time and at most 48 hours before it,
  sold more than 10 per cent below the buy price.  Both timestamps are offset-naive, as the
  clock reading they are measured against is.
\<close>

definition panic_pair :: "iso_parser \<Rightarrow> int \<Rightarrow> transaction \<Rightarrow> transaction \<Rightarrow> bool" where
  "panic_pair fromisoformat now sell buy =
     (t_action sell = ''sell'' \<and> t_action buy = ''buy'' \<and> t_symbol buy = t_symbol sell
      \<and> (case parse_timestamp fromisoformat (t_timestamp sell) of
            None \<Rightarrow> False
          | Some sell_ts \<Rightarrow>
              (case parse_timestamp fromisoformat (t_timestamp buy) of
                 None \<Rightarrow> False
               | Some buy_ts \<Rightarrow>
                   is_naive sell_ts \<and> is_naive buy_ts
                   \<and> instant sell_ts \<ge> now - timedelta_days 7
                   \<and> 0 < t_price buy
                   \<and> 0 < total_seconds (instant sell_ts - instant buy_ts) / 3600
                   \<and> total_seconds (instant sell_ts - instant buy_ts) / 3600 \<le> 48
                   \<and> ((t_price sell - t_price buy) / t_price buy) * 100 < - 10)))"

section \<open>Challenge progress (challenges.py)\<close>

record challenge_template =
  tmpl_challenge_type :: string
  tmpl_title :: string
  tmpl_description :: string
  tmpl_target_value :: real
  tmpl_duration_days :: nat

definition CHALLENGE_TEMPLATES :: "challenge_template list" where
  "CHALLENGE_TEMPLATES =
     [\<lparr>tmpl_challenge_type = ''diversify_sectors'', tmpl_title = ''Sector Explorer'',
        tmpl_description =
          ''Hold 3 or more unique asset types (stocks and crypto) at the same time.'',
        tmpl_target_value = 3, tmpl_duration_days = 30\<rparr>,
      \<lparr>tmpl_challenge_type = ''cash_reserve'', tmpl_title = ''Cash Discipline'',
        tmpl_description =
          ''Keep at least 25% of your portfolio in cash for 7 consecutive days.'',
        tmpl_target_value = 7, tmpl_duration_days = 30\<rparr>,
      \<lparr>tmpl_challenge_type = ''checklist_streak'', tmpl_title = ''Mindful Trader'',
        tmpl_description =
          ''Complete 10 consecutive full trade checklists without skipping.'',
        tmpl_target_value = 10, tmpl_duration_days = 30\<rparr>,
      \<lparr>tmpl_challenge_type = ''hold_duration'', tmpl_title = ''Patient Investor'',
        tmpl_description = ''Hold at least 1 position for 5 or more days.'',
        tmpl_target_value = 5, tmpl_duration_days = 30\<rparr>,
      \<lparr>tmpl_challenge_type = ''trade_variety'', tmpl_title = ''Multi-Market Learner'',
        tmpl_description = ''Execute trades in both stocks and crypto markets.'',
        tmpl_target_value = 2, tmpl_duration_days = 30\<rparr>,
      \<lparr>tmpl_challenge_type = ''neutral_trader'', tmpl_title = ''Calm Waters'',
        tmpl_description =
          ''Execute 3 trades when market sentiment for the asset is neutral.'',
        tmpl_target_value = 3, tmpl_duration_days = 30\<rparr>,
      \<lparr>tmpl_challenge_type = ''hype_resistant'', tmpl_title = ''Hype Resistant'',
        tmpl_description =
          ''Go 7 days without buying any asset with >70% positive sentiment.'',
        tmpl_target_value = 7, tmpl_duration_days = 14\<rparr>]"

definition compute_diversify_sectors :: "holding list \<Rightarrow> real" where
  "compute_diversify_sectors holdings =
     real (length (remdups (map (\<lambda>h. h_type h @ '':'' @ h_symbol h)
                            (filter (\<lambda>h. h_symbol h \<noteq> [] \<and> h_type h \<noteq> []) holdings))))"

definition buys_on_day :: "iso_parser \<Rightarrow> int \<Rightarrow> transaction list \<Rightarrow> nat \<Rightarrow> transaction list" where
  \<comment> \<open>\<open>day_trades\<close> for one \<open>day_offset\<close>\<close>
  "buys_on_day fromisoformat now transactions day_offset =
     filter (\<lambda>t. t_action t = ''buy''
                \<and> (case parse_timestamp fromisoformat (t_timestamp t) of
                      None \<Rightarrow> False
                    | Some ts \<Rightarrow>
                        date_of ts
                        = date_of (minus_timedelta (Naive now) (timedelta_days (int day_offset)))))
       transactions"

definition compute_cash_reserve ::
  "iso_parser \<Rightarrow> int \<Rightarrow> real \<Rightarrow> holding list \<Rightarrow> transaction list \<Rightarrow> real" where
  "compute_cash_reserve fromisoformat now balance holdings transactions =
     (let total_value = foldl (\<lambda>total_value h. total_value + h_quantity h * holding_price h)
                          balance holdings
      in if total_value \<le> 0 then 0
         else
           let cash_pct = (balance / total_value) * 100
           in if cash_pct \<ge> 25 then
                let consecutive =
                      length (takeWhile
                        (\<lambda>day_offset. buys_on_day fromisoformat now transactions day_offset = []
                                       \<and> cash_pct \<ge> 25)
                        [0..<30])
                in real (min consecutive 7)
              else 0)"

definition compute_checklist_streak :: "checklist list \<Rightarrow> real" where
  "compute_checklist_streak checklists =
     (let sorted_checklists = rev (sort_key created_at (rev checklists));
          streak = length (takeWhile (\<lambda>c. completed_count c = 5 \<and> \<not> skipped c) sorted_checklists)
      in real (min streak 10))"

fun hold_duration_loop ::
  "iso_parser \<Rightarrow> int \<Rightarrow> transaction list \<Rightarrow> real \<Rightarrow> holding list \<Rightarrow> py_exception + real" where
  \<comment> \<open>the loop \<open>for h in holdings\<close>, updating \<open>max_days\<close>\<close>
  "hold_duration_loop fromisoformat now transactions max_days [] = Inr max_days"
| "hold_duration_loop fromisoformat now transactions max_days (h # hs) =
     (let buys = filter (\<lambda>t. t_symbol t = h_symbol h \<and> t_action t = ''buy'') transactions
      in if buys = [] then hold_duration_loop fromisoformat now transactions max_days hs
         else
           (case min_parsed_timestamp fromisoformat buys of
              Inl e \<Rightarrow> Inl e
            | Inr None \<Rightarrow> hold_duration_loop fromisoformat now transactions max_days hs
            | Inr (Some earliest) \<Rightarrow>
                (case sub_datetime (Naive now) earliest of
                   Inl e \<Rightarrow> Inl e
                 | Inr held \<Rightarrow>
                     hold_duration_loop fromisoformat now transactions
                       (max max_days (total_seconds held / 86400)) hs)))"

definition compute_hold_duration ::
  "iso_parser \<Rightarrow> int \<Rightarrow> holding list \<Rightarrow> transaction list \<Rightarrow> py_exception + real" where
  "compute_hold_duration fromisoformat now holdings transactions =
     (case hold_duration_loop fromisoformat now transactions 0 holdings of
        Inl e \<Rightarrow> Inl e
      | Inr max_days \<Rightarrow> Inr (min max_days 5))"

definition compute_trade_variety :: "transaction list \<Rightarrow> real" where
  "compute_trade_variety transactions =
     real (length (remdups (filter (\<lambda>asset_type. asset_type \<noteq> []) (map t_type transactions))))"

text \<open>
  \<open>compute_neutral_trader\<close> asks for the cached sentiment through the event loop
  (\<open>loop.run_until_complete(get_cached_sentiment(sym))\<close>): a \<open>RuntimeError\<close> there is passed
  over, any other exception makes the computer return 0.  The result of the scan is the
  count (\<open>n_neutral\<close>), or \<open>None\<close> for that other exception.
\<close>

fun neutral_scan ::
  "sentiment_lookup \<Rightarrow> string list \<Rightarrow> nat \<Rightarrow> transaction list \<Rightarrow> nat option" where
  "neutral_scan run_cached_sentiment checked n_neutral [] = Some n_neutral"
| "neutral_scan run_cached_sentiment checked n_neutral (buy # buys) =
     (if t_symbol buy \<in> set checked then neutral_scan run_cached_sentiment checked n_neutral buys
      else
        (case run_cached_sentiment (t_symbol buy) of
           Inl RuntimeError \<Rightarrow>
             neutral_scan run_cached_sentiment (t_symbol buy # checked) n_neutral buys
         | Inl OtherException \<Rightarrow> None
         | Inr None \<Rightarrow> neutral_scan run_cached_sentiment (t_symbol buy # checked) n_neutral buys
         | Inr (Some cached) \<Rightarrow>
             neutral_scan run_cached_sentiment (t_symbol buy # checked)
               (if mood cached = Some ''neutral'' then n_neutral + 1 else n_neutral) buys))"

definition compute_neutral_trader ::
  "iso_parser \<Rightarrow> int \<Rightarrow> sentiment_lookup \<Rightarrow> transaction list \<Rightarrow> py_exception + real" where
  "compute_neutral_trader fromisoformat now run_cached_sentiment transactions =
     (case filter_raising
             (recent_buy fromisoformat (minus_timedelta (Naive now) (timedelta_days 30)))
             transactions of
        Inl e \<Rightarrow> Inl e
      | Inr recent_buys \<Rightarrow>
          (case neutral_scan run_cached_sentiment [] 0 recent_buys of
             None \<Rightarrow> Inr 0
           | Some n_neutral \<Rightarrow> Inr (real (min n_neutral 3))))"

fun hype_buy_dates ::
  "iso_parser \<Rightarrow> int \<Rightarrow> int list \<Rightarrow> transaction list \<Rightarrow> py_exception + int list" where
  \<comment> \<open>the loop \<open>for t in transactions\<close>, filling the set \<open>hype_buy_dates\<close>\<close>
  "hype_buy_dates fromisoformat now dates [] = Inr dates"
| "hype_buy_dates fromisoformat now dates (t # txns) =
     (if t_action t \<noteq> ''buy'' then hype_buy_dates fromisoformat now dates txns
      else
        (case parse_timestamp fromisoformat (t_timestamp t) of
           None \<Rightarrow> hype_buy_dates fromisoformat now dates txns
         | Some ts \<Rightarrow>
             (case less_datetime ts (minus_timedelta (Naive now) (timedelta_days 14)) of
                Inl e \<Rightarrow> Inl e
              | Inr too_old \<Rightarrow>
                  if too_old then hype_buy_dates fromisoformat now dates txns
                  else hype_buy_dates fromisoformat now (dates @ [date_of ts]) txns)))"

definition compute_hype_resistant ::
  "iso_parser \<Rightarrow> int \<Rightarrow> transaction list \<Rightarrow> py_exception + real" where
  "compute_hype_resistant fromisoformat now transactions =
     (case hype_buy_dates fromisoformat now [] transactions of
        Inl e \<Rightarrow> Inl e
      | Inr dates \<Rightarrow>
          if dates = [] then Inr 7
          else
            let consecutive =
                  length (takeWhile
                    (\<lambda>day_offset.
                       date_of (minus_timedelta (Naive now) (timedelta_days (int day_offset)))
                       \<notin> set dates)
                    [0..<14])
            in Inr (real (min consecutive 7)))"

definition compute_challenge_progress ::
  "iso_parser \<Rightarrow> int \<Rightarrow> sentiment_lookup \<Rightarrow> string \<Rightarrow> holding list \<Rightarrow> real \<Rightarrow>
   transaction list \<Rightarrow> checklist list \<Rightarrow> py_exception + real" where
  \<comment> \<open>\<open>PROGRESS_COMPUTERS.get(challenge_type)\<close>, and 0 for a type it does not hold\<close>
  "compute_challenge_progress fromisoformat now run_cached_sentiment challenge_type holdings
     balance transactions checklists =
     (if challenge_type = ''diversify_sectors'' then Inr (compute_diversify_sectors holdings)
      else if challenge_type = ''cash_reserve''
        then Inr (compute_cash_reserve fromisoformat now balance holdings transactions)
      else if challenge_type = ''checklist_streak'' then Inr (compute_checklist_streak checklists)
      else if challenge_type = ''hold_duration''
        then compute_hold_duration fromisoformat now holdings transactions
      else if challenge_type = ''trade_variety'' then Inr (compute_trade_variety transactions)
      else if challenge_type = ''neutral_trader''
        then compute_neutral_trader fromisoformat now run_cached_sentiment transactions
      else if challenge_type = ''hype_resistant''
        then compute_hype_resistant fromisoformat now transactions
      else Inr 0)"

section \<open>Verification\<close>

subsection \<open>Score computers\<close>

lemma foldl_plus_sum: "foldl (+) (b::real) xs = b + sum_list xs"
  by (induction xs arbitrary: b) simp_all

lemma foldl_concentration:
  "foldl (concentration_penalty tv) s vals
     = s - sum_list (map (\<lambda>val. 1.5 * max 0 (val / tv * 100 - 25)) vals)"
  by (induction vals arbitrary: s) (simp_all add: concentration_penalty_def Let_def max_def)

lemma risk_formula:
  "compute_risk_score holdings balance =
     (let tv = balance + sum_list (map (\<lambda>h. h_quantity h * holding_price h) holdings)
      in if tv \<le> 0 then 50
         else max 0 (min 100
                (100 - 15 * max 0 (3 - real (length holdings))
                     - 2 * max 0 (10 - balance / tv * 100)
                     - sum_list (map (\<lambda>h. 1.5 * max 0 (h_quantity h * holding_price h / tv * 100 - 25))
                         holdings))))"
proof -
  have pv: "map holding_value holdings = map (\<lambda>h. h_quantity h * holding_price h) holdings"
    by (simp add: holding_value_def)
  have n: "(if length holdings < 3 then (100::real) - real (3 - length holdings) * 15 else 100)
           = 100 - 15 * max 0 (3 - real (length holdings))"
    by (auto simp: max_def)
  have c: "\<And>s x::real. (if x < 10 then s - (10 - x) * 2 else s) = s - 2 * max 0 (10 - x)"
    by (auto simp: max_def)
  show ?thesis
    unfolding compute_risk_score_def Let_def foldl_plus_sum foldl_concentration pv n c
    by (simp add: comp_def)
qed

lemma risk_range: "0 \<le> compute_risk_score hs b \<and> compute_risk_score hs b \<le> 100"
  by (simp add: compute_risk_score_def Let_def)

lemma discipline_range:
  "0 \<le> compute_discipline_score cs n \<and> compute_discipline_score cs n \<le> 100"
  by (simp add: compute_discipline_score_def Let_def)

lemma psychology_range:
  "0 \<le> compute_psychology_score ts \<and> compute_psychology_score ts \<le> 100"
  by (simp add: compute_psychology_score_def Let_def)

text \<open>The variance is only asked for under the guard of at least three pooled values.\<close>

lemma stability_total: "\<exists>v. stability_of h = Inr v"
proof (cases "3 \<le> length h \<and> 3 \<le> length (pooled_scores h)")
  case True
  then have "\<exists>v. variance (pooled_scores h) = Some v"
    by (simp add: variance_def Let_def)
  then obtain v where "variance (pooled_scores h) = Some v" ..
  with True have "stability_of h = Inr ((max 0 (100 - v / 5) / 100) * 30)"
    by (simp add: stability_of_def Let_def)
  then show ?thesis by blast
next
  case False
  then show ?thesis
    by (auto simp: stability_of_def Let_def)
qed

lemma consistency_range:
  "\<exists>v. compute_consistency_score h a t = Inr v \<and> 0 \<le> v \<and> v \<le> 100"
proof -
  obtain s where s: "stability_of h = Inr s" using stability_total by blast
  show ?thesis by (simp add: compute_consistency_score_def Let_def s)
qed

lemma scores_on_empty_input:
  "compute_risk_score [] b = (if b \<le> 0 then 50 else 55)"
  "compute_discipline_score [] n = (if n = 0 then 50 else 20)"
  "compute_strategy_score fi [] = Inr 40"
  "compute_psychology_score [] = 100"
  "compute_consistency_score [] 0 30 = Inr 50"
  by (simp_all add: compute_risk_score_def compute_discipline_score_def
      compute_strategy_score_def compute_psychology_score_def compute_consistency_score_def
      stability_of_def is_drawdown_day_def Let_def)

text \<open>
  Claim C7.  The risk score is 50 when the total portfolio value (the balance plus the sum
  of quantity times price over the holdings) is at most 0; otherwise it is
  100 - 15 max(0, 3 - numHoldings) - 2 max(0, 10 - cashPct)
  - sum of 1.5 max(0, positionPct - 25), clamped to [0, 100].  A balance of 100000 with no
  holdings gives exactly 55.
\<close>

theorem C7_risk_score_formula:
  "compute_risk_score holdings balance =
     (let tv = balance + sum_list (map (\<lambda>h. h_quantity h * holding_price h) holdings)
      in if tv \<le> 0 then 50
         else max 0 (min 100
                (100 - 15 * max 0 (3 - real (length holdings))
                     - 2 * max 0 (10 - balance / tv * 100)
                     - sum_list (map (\<lambda>h. 1.5 * max 0 (h_quantity h * holding_price h / tv * 100 - 25))
                         holdings))))
   \<and> compute_risk_score [] 100000 = 55"
  using risk_formula [of holdings balance] scores_on_empty_input(1) [of 100000]
  by simp

subsection \<open>Badge evaluator\<close>

lemma market_aware_entry:
  "badge_result_of ''market_aware'' (evaluate_badges ds mt) =
     Some (evaluate_badge ds mt
       \<lparr>bd_badge_type = ''market_aware'', bd_score = psychology_score, bd_threshold = 70,
        bd_days = 21, bd_requires_sentiment = True\<rparr>)"
  by (simp add: badge_result_of_def evaluate_badges_def BADGE_DEFINITIONS_def
      evaluate_badge_def Let_def)

text \<open>
  Claim C8.  Whenever the trigger list handed to the evaluator holds a
  \<open>sentiment_fomo\<close> trigger, the \<open>market_aware\<close> badge comes out not earned (and not
  active), whatever the 30-day history is, so also when psychology reached 70 on 21 days
  or more; the count of qualifying days is reported all the same.
\<close>

theorem C8_market_aware_veto:
  assumes "\<exists>t \<in> set triggers. pattern_type t = ''sentiment_fomo''"
  shows "\<exists>b. badge_result_of ''market_aware'' (evaluate_badges daily_scores (Some triggers)) = Some b
           \<and> \<not> br_earned b \<and> \<not> br_active b
           \<and> br_qualifying_days b
                = length (filter (\<lambda>ds. get_or (psychology_score ds) 0 \<ge> 70) daily_scores)"
  using assms unfolding market_aware_entry
  by (auto simp add: evaluate_badge_def Let_def filter_empty_conv)

theorem C8_market_aware_veto_witness:
  "(\<exists>t \<in> set [\<lparr>pattern_type = ''sentiment_fomo'', trigger_symbol = None\<rparr>].
       pattern_type t = ''sentiment_fomo'')
   \<and> (\<exists>b. badge_result_of ''market_aware''
            (evaluate_badges
               (replicate 21
                  \<lparr>ds_id = ''ds-2024-03-01'', ds_date = ''2024-03-01'', risk_score = Some 80,
                   discipline_score = Some 80, strategy_score = Some 80,
                   psychology_score = Some 80, consistency_score = Some 80, trade_count = 1,
                   active_day = True, computed_at = ''2024-03-01T09:00:00''\<rparr>)
               (Some [\<lparr>pattern_type = ''sentiment_fomo'', trigger_symbol = None\<rparr>])) = Some b
          \<and> \<not> br_earned b \<and> \<not> br_active b \<and> br_qualifying_days b = 21)"
  using C8_market_aware_veto
    [of "[\<lparr>pattern_type = ''sentiment_fomo'', trigger_symbol = None\<rparr>]"
        "replicate 21
           \<lparr>ds_id = ''ds-2024-03-01'', ds_date = ''2024-03-01'', risk_score = Some 80,
            discipline_score = Some 80, strategy_score = Some 80,
            psychology_score = Some 80, consistency_score = Some 80, trade_count = 1,
            active_day = True, computed_at = ''2024-03-01T09:00:00''\<rparr>"]
  by (simp add: get_or_def)

text \<open>
  Claim C9.  Called without a trigger list (\<open>mentor_triggers = None\<close>, the default), the
  evaluator skips the sentiment veto: \<open>market_aware\<close> is earned exactly when psychology
  reached 70 on at least 21 days of the history, and nothing about triggers enters.
\<close>

theorem C9_no_veto_without_triggers:
  "\<exists>b. badge_result_of ''market_aware'' (evaluate_badges daily_scores None) = Some b
      \<and> br_qualifying_days b
           = length (filter (\<lambda>ds. get_or (psychology_score ds) 0 \<ge> 70) daily_scores)
      \<and> br_earned b = (br_qualifying_days b \<ge> 21)
      \<and> br_active b = br_earned b"
  unfolding market_aware_entry
  by (simp add: evaluate_badge_def Let_def)

subsection \<open>Badge persistence\<close>

lemma find_map_same_key:
  assumes "\<And>r. P (f r) = P r"
  shows "find P (map f xs) = map_option f (find P xs)"
  using assms by (induction xs) simp_all

lemma find_append_Some: "find P xs = Some r \<Longrightarrow> find P (xs @ ys) = Some r"
  by (induction xs) (simp_all split: if_splits)

lemma upsert_badge_keeps_first_earned:
  assumes "upsert_badge table bid bty e a q fe u = Inr table'"
    and "first_earned_at_of table ty = Some t"
  shows "first_earned_at_of table' ty = Some t"
proof -
  from assms(2) obtain r where r: "find (\<lambda>r. b_badge_type r = ty) table = Some r"
    and t: "first_earned_at r = Some t"
    by (auto simp: first_earned_at_of_def split: option.splits)
  show ?thesis
  proof (cases "\<exists>r \<in> set table. b_badge_type r = bty")
    case True
    let ?f = "\<lambda>r. if b_badge_type r = bty
                       then r\<lparr>b_earned := e, b_active := a, b_qualifying_days := q,
                              first_earned_at :=
                                (case first_earned_at r of Some t \<Rightarrow> Some t | None \<Rightarrow> fe),
                              last_active_at := (if a then Some u else last_active_at r),
                              b_updated_at := u\<rparr>
                       else r"
    from True assms(1) have tab: "table' = map ?f table"
      by (simp add: upsert_badge_def)
    have "find (\<lambda>r. b_badge_type r = ty) (map ?f table) = map_option ?f (Some r)"
      unfolding r [symmetric] by (rule find_map_same_key) simp
    then show ?thesis using t
      by (simp add: first_earned_at_of_def tab)
  next
    case False
    with assms(1) obtain row where "table' = table @ [row]"
      by (auto simp: upsert_badge_def split: if_splits)
    then show ?thesis using r t
      by (simp add: first_earned_at_of_def find_append_Some)
  qed
qed

lemma table_after_upsert_keeps:
  "first_earned_at_of table ty = Some t
   \<Longrightarrow> first_earned_at_of (table_after_upsert table w) ty = Some t"
  by (auto simp: table_after_upsert_def split: sum.splits dest: upsert_badge_keeps_first_earned)

lemma writes_keep_first_earned:
  "first_earned_at_of table ty = Some t
   \<Longrightarrow> first_earned_at_of (foldl table_after_upsert table ws) ty = Some t"
  by (induction ws arbitrary: table) (simp_all add: table_after_upsert_keeps)

lemma update_badges_keeps:
  "update_badges now table bs = Inr table' \<Longrightarrow> first_earned_at_of table ty = Some t
   \<Longrightarrow> first_earned_at_of table' ty = Some t"
proof (induction bs arbitrary: table)
  case Nil
  then show ?case by simp
next
  case (Cons b bs)
  then show ?case
    by (auto split: sum.splits dest: upsert_badge_keeps_first_earned)
qed

lemma run_keeps_first_earned:
  assumes "compute_daily_scores_internal fi inp db = Inr (db', sc, bs)"
    and "first_earned_at_of (badges_table db) ty = Some t"
  shows "first_earned_at_of (badges_table db') ty = Some t"
  using assms
  by (auto simp: compute_daily_scores_internal_def Let_def split: sum.splits
      dest: update_badges_keeps)

text \<open>
  Claim C4.  Once the \<open>first_earned_at\<close> column of a badge holds a timestamp, no later
  \<open>upsert_badge\<close> changes it: not any sequence of calls, whatever their arguments (a call
  that raises leaves the table as it is), and so not a run of the daily aggregator, which
  passes no timestamp (\<open>None\<close>) for a badge it finds not earned.
\<close>

theorem C4_first_earned_at_never_cleared:
  assumes "first_earned_at_of table badge_type = Some t"
  shows "first_earned_at_of (foldl table_after_upsert table writes) badge_type = Some t
       \<and> (\<forall>fi inp daily db' sc bs.
             compute_daily_scores_internal fi inp
               \<lparr>daily_scores_table = daily, badges_table = table\<rparr> = Inr (db', sc, bs)
             \<longrightarrow> first_earned_at_of (badges_table db') badge_type = Some t)"
proof (intro conjI allI impI)
  show "first_earned_at_of (foldl table_after_upsert table writes) badge_type = Some t"
    using assms by (rule writes_keep_first_earned)
next
  fix fi inp daily db' sc bs
  assume "compute_daily_scores_internal fi inp
            \<lparr>daily_scores_table = daily, badges_table = table\<rparr> = Inr (db', sc, bs)"
  then show "first_earned_at_of (badges_table db') badge_type = Some t"
    using assms run_keeps_first_earned by fastforce
qed

theorem C4_first_earned_at_never_cleared_witness:
  "first_earned_at_of
     [\<lparr>b_id = ''badge-market_aware'', b_badge_type = ''market_aware'', b_earned = True,
       b_active = True, b_qualifying_days = 22,
       first_earned_at = Some ''2024-03-01T09:00:00'',
       last_active_at = Some ''2024-03-01T09:00:00'',
       b_updated_at = ''2024-03-01T09:00:00''\<rparr>] ''market_aware''
     = Some ''2024-03-01T09:00:00''
   \<and> first_earned_at_of
       (foldl table_after_upsert
          [\<lparr>b_id = ''badge-market_aware'', b_badge_type = ''market_aware'', b_earned = True,
            b_active = True, b_qualifying_days = 22,
            first_earned_at = Some ''2024-03-01T09:00:00'',
            last_active_at = Some ''2024-03-01T09:00:00'',
            b_updated_at = ''2024-03-01T09:00:00''\<rparr>]
          [\<lparr>w_badge_id = ''badge-market_aware'', w_badge_type = ''market_aware'',
            w_earned = False, w_active = False, w_qualifying_days = 3,
            w_first_earned_at = None, w_updated_at = ''2024-04-01T09:00:00''\<rparr>])
       ''market_aware''
     = Some ''2024-03-01T09:00:00''"
proof -
  have h: "first_earned_at_of
     [\<lparr>b_id = ''badge-market_aware'', b_badge_type = ''market_aware'', b_earned = True,
       b_active = True, b_qualifying_days = 22,
       first_earned_at = Some ''2024-03-01T09:00:00'',
       last_active_at = Some ''2024-03-01T09:00:00'',
       b_updated_at = ''2024-03-01T09:00:00''\<rparr>] ''market_aware''
     = Some ''2024-03-01T09:00:00''"
    by (simp add: first_earned_at_of_def)
  from C4_first_earned_at_never_cleared [OF h] h show ?thesis
    by blast
qed

subsection \<open>Daily score aggregator\<close>

lemma length_filter_key: "length (filter (\<lambda>row. f row = k) xs) = count_list (map f xs) k"
  by (induction xs) auto

lemma count_list_distinct: "distinct xs \<Longrightarrow> x \<in> set xs \<Longrightarrow> count_list xs x = 1"
  by (induction xs) (auto simp: count_list_0_iff)

lemma upsert_daily_score_one_row:
  assumes "upsert_daily_score table sid date r d s p c n a now = Inr table'"
    and "distinct (map ds_date table)"
  shows "length (filter (\<lambda>row. ds_date row = date) table') = 1
       \<and> distinct (map ds_date table')"
proof (cases "\<exists>row \<in> set table. ds_date row = date")
  case True
  let ?f = "\<lambda>row. if ds_date row = date
                   then row\<lparr>risk_score := Some r, discipline_score := Some d,
                            strategy_score := Some s, psychology_score := Some p,
                            consistency_score := Some c, trade_count := n,
                            active_day := a, computed_at := now\<rparr>
                   else row"
  from True assms(1) have tab: "table' = map ?f table"
    by (simp add: upsert_daily_score_def)
  have dates: "map ds_date (map ?f table) = map ds_date table"
    by (induction table) simp_all
  have "length (filter (\<lambda>row. ds_date row = date) table')
        = count_list (map ds_date table') date"
    by (rule length_filter_key)
  also have "\<dots> = count_list (map ds_date table) date"
    unfolding tab dates ..
  also have "\<dots> = 1"
    using True assms(2) by (auto simp: count_list_distinct)
  finally have one: "length (filter (\<lambda>row. ds_date row = date) table') = 1" .
  have "distinct (map ds_date table')"
    unfolding tab dates by (rule assms(2))
  with one show ?thesis by blast
next
  case False
  with assms(1) obtain row where tab: "table' = table @ [row]" and row: "ds_date row = date"
    by (auto simp: upsert_daily_score_def split: if_splits)
  from False have "filter (\<lambda>row. ds_date row = date) table = []"
    by (auto simp: filter_empty_conv)
  with False assms(2) show ?thesis
    by (auto simp: tab row)
qed

lemma run_leaves_one_row_for_today:
  assumes "compute_daily_scores_internal fi inp db = Inr (db', sc, bs)"
    and "distinct (map ds_date (daily_scores_table db))"
  shows "length (filter (\<lambda>row. ds_date row = run_today inp) (daily_scores_table db')) = 1
       \<and> distinct (map ds_date (daily_scores_table db'))"
  using assms
  by (auto simp: compute_daily_scores_internal_def Let_def split: sum.splits
      dest: upsert_daily_score_one_row)

text \<open>
  Claim C1 (the code departs from it).  An account that never trades, scored once a day
  from an empty database: the third day's run stores consistency 50, computed from a
  history of two rows.  A second run on that third day, with nothing changed, reads a
  history of three rows, its own first result among them, takes the variance branch of the
  consistency score and overwrites the row with consistency 20.  There is one row for the
  date after either run; the other six stored values agree.
\<close>

theorem C1_second_run_same_day_differs:
  "map_sum id (\<lambda>db. stored_scores db ''2024-03-03'')
     (run_all (\<lambda>s. Inl ValueError) \<lparr>daily_scores_table = [], badges_table = []\<rparr>
        [idle_account_run ''2024-03-01'' ''2024-01-31T09:00:00'' ''2024-01-31'' ''2024-03-01T09:00:00'',
         idle_account_run ''2024-03-02'' ''2024-02-01T09:00:00'' ''2024-02-01'' ''2024-03-02T09:00:00'',
         idle_account_run ''2024-03-03'' ''2024-02-02T09:00:00'' ''2024-02-02'' ''2024-03-03T09:00:00''])
     = Inr [(Some 55, Some 50, Some 40, Some 100, Some 50, 0, False)]
   \<and> map_sum id (\<lambda>db. stored_scores db ''2024-03-03'')
     (run_all (\<lambda>s. Inl ValueError) \<lparr>daily_scores_table = [], badges_table = []\<rparr>
        [idle_account_run ''2024-03-01'' ''2024-01-31T09:00:00'' ''2024-01-31'' ''2024-03-01T09:00:00'',
         idle_account_run ''2024-03-02'' ''2024-02-01T09:00:00'' ''2024-02-01'' ''2024-03-02T09:00:00'',
         idle_account_run ''2024-03-03'' ''2024-02-02T09:00:00'' ''2024-02-02'' ''2024-03-03T09:00:00'',
         idle_account_run ''2024-03-03'' ''2024-02-02T09:00:00'' ''2024-02-02'' ''2024-03-03T09:00:00''])
     = Inr [(Some 55, Some 50, Some 40, Some 100, Some 20, 0, False)]"
  by code_simp

subsection \<open>Strategy score\<close>

lemma get_list_group_append:
  "get_list (group_append m k v) s = get_list m s @ (if k = s then [v] else [])"
  by (induction m k v rule: group_append.induct) (auto simp: get_list_def)

lemma get_list_foldl_group:
  "get_list (foldl (\<lambda>m tx. group_append m (t_symbol tx) tx) m txs) s
     = get_list m s @ filter (\<lambda>t. t_symbol t = s) txs"
  by (induction txs arbitrary: m) (simp_all add: get_list_group_append)

lemma get_list_group_by_symbol:
  "get_list (group_by_symbol txs) s = filter (\<lambda>t. t_symbol t = s) txs"
  unfolding group_by_symbol_def get_list_foldl_group by (simp add: get_list_def)

lemma get_list_buy_map:
  "get_list (group_by_symbol (filter (\<lambda>t. t_action t = ''buy'') txs)) s = buys_of_symbol txs s"
  unfolding get_list_group_by_symbol buys_of_symbol_def by (simp add: conj_commute)


lemma tally_sell_fields:
  "wins (tally_sell (group_by_symbol (filter (\<lambda>t. t_action t = ''buy'') txs)) acc sell)
     = wins acc + (if buys_of_symbol txs (t_symbol sell) \<noteq> [] \<and> is_win txs sell then 1 else 0)"
  "losses (tally_sell (group_by_symbol (filter (\<lambda>t. t_action t = ''buy'') txs)) acc sell)
     = losses acc + (if buys_of_symbol txs (t_symbol sell) \<noteq> [] \<and> \<not> is_win txs sell then 1 else 0)"
  "total_profit (tally_sell (group_by_symbol (filter (\<lambda>t. t_action t = ''buy'') txs)) acc sell)
     = total_profit acc
       + (if buys_of_symbol txs (t_symbol sell) \<noteq> [] \<and> is_win txs sell
          then (t_price sell - flat_mean_buy_price txs (t_symbol sell)) * t_quantity sell else 0)"
  "total_loss (tally_sell (group_by_symbol (filter (\<lambda>t. t_action t = ''buy'') txs)) acc sell)
     = total_loss acc
       + (if buys_of_symbol txs (t_symbol sell) \<noteq> [] \<and> \<not> is_win txs sell
          then (flat_mean_buy_price txs (t_symbol sell) - t_price sell) * t_quantity sell else 0)"
  by (simp_all add: tally_sell_def Let_def get_list_buy_map is_win_def flat_mean_buy_price_def)

lemma tally_fold_wins:
  "wins (foldl (tally_sell (group_by_symbol (filter (\<lambda>t. t_action t = ''buy'') txs))) acc sells)
     = wins acc
       + length (filter (is_win txs)
           (filter (\<lambda>t. buys_of_symbol txs (t_symbol t) \<noteq> []) sells))"
  by (induction sells arbitrary: acc) (simp_all add: tally_sell_fields)

lemma tally_fold_losses:
  "losses (foldl (tally_sell (group_by_symbol (filter (\<lambda>t. t_action t = ''buy'') txs))) acc sells)
     = losses acc
       + length (filter (\<lambda>t. \<not> is_win txs t)
           (filter (\<lambda>t. buys_of_symbol txs (t_symbol t) \<noteq> []) sells))"
  by (induction sells arbitrary: acc) (simp_all add: tally_sell_fields)

lemma tally_fold_profit:
  "total_profit (foldl (tally_sell (group_by_symbol (filter (\<lambda>t. t_action t = ''buy'') txs))) acc sells)
     = total_profit acc
       + sum_list (map (\<lambda>sell. (t_price sell - flat_mean_buy_price txs (t_symbol sell)) * t_quantity sell)
           (filter (is_win txs)
              (filter (\<lambda>t. buys_of_symbol txs (t_symbol t) \<noteq> []) sells)))"
  by (induction sells arbitrary: acc) (simp_all add: tally_sell_fields)

lemma tally_fold_loss:
  "total_loss (foldl (tally_sell (group_by_symbol (filter (\<lambda>t. t_action t = ''buy'') txs))) acc sells)
     = total_loss acc
       + sum_list (map (\<lambda>sell. (flat_mean_buy_price txs (t_symbol sell) - t_price sell) * t_quantity sell)
           (filter (\<lambda>t. \<not> is_win txs t)
              (filter (\<lambda>t. buys_of_symbol txs (t_symbol t) \<noteq> []) sells)))"
  by (induction sells arbitrary: acc) (simp_all add: tally_sell_fields)

lemma scored_sells_alt:
  "filter (\<lambda>t. buys_of_symbol txs (t_symbol t) \<noteq> []) (filter (\<lambda>t. t_action t = ''sell'') txs)
     = scored_sells txs"
  by (simp add: scored_sells_def conj_commute)

lemma sell_duration_buy_map:
  "sell_duration fi (group_by_symbol (filter (\<lambda>t. t_action t = ''buy'') txs)) sell
     = (if duration_raises fi txs sell then Inl TypeError
        else Inr (case parse_timestamp fi (t_timestamp sell) of
                    None \<Rightarrow> None
                  | Some sell_ts \<Rightarrow>
                      (case first_listed_buy_time fi (buys_of_symbol txs (t_symbol sell)) of
                         None \<Rightarrow> None
                       | Some buy_ts \<Rightarrow>
                           Some (total_seconds (instant sell_ts - instant buy_ts) / 86400))))"
  by (simp add: sell_duration_def get_list_buy_map first_listed_buy_time_def
      duration_raises_def sub_datetime_def split: option.splits list.splits)

lemma durations_loop_raises:
  assumes "\<exists>sell \<in> set sells. duration_raises fi txs sell"
  shows "durations_loop fi (group_by_symbol (filter (\<lambda>t. t_action t = ''buy'') txs)) acc sells
         = Inl TypeError"
  using assms
  by (induction sells arbitrary: acc)
     (auto simp: sell_duration_buy_map split: option.splits)

lemma durations_loop_returns:
  assumes "\<forall>sell \<in> set sells. \<not> duration_raises fi txs sell"
  shows "durations_loop fi (group_by_symbol (filter (\<lambda>t. t_action t = ''buy'') txs)) acc sells
         = Inr (acc @ List.map_filter
                  (\<lambda>sell. case parse_timestamp fi (t_timestamp sell) of
                            None \<Rightarrow> None
                          | Some sell_ts \<Rightarrow>
                              (case first_listed_buy_time fi (buys_of_symbol txs (t_symbol sell)) of
                                 None \<Rightarrow> None
                               | Some buy_ts \<Rightarrow>
                                   Some (total_seconds (instant sell_ts - instant buy_ts) / 86400)))
                  sells)"
  using assms
proof (induction sells arbitrary: acc)
  case Nil
  show ?case by simp
next
  case (Cons sell sells)
  from Cons.prems have nr: "\<not> duration_raises fi txs sell"
    and rest: "\<forall>sell \<in> set sells. \<not> duration_raises fi txs sell"
    by simp_all
  show ?case
    by (simp add: sell_duration_buy_map nr Cons.IH [OF rest] split: option.splits)
qed

lemma durations_spec:
  "durations_loop fi (group_by_symbol (filter (\<lambda>t. t_action t = ''buy'') txs)) []
     (filter (\<lambda>t. t_action t = ''sell'') txs)
   = (if \<exists>sell \<in> set (filter (\<lambda>t. t_action t = ''sell'') txs). duration_raises fi txs sell
      then Inl TypeError
      else Inr (spec_durations (first_listed_buy_time fi) fi txs))"
proof (cases "\<exists>sell \<in> set (filter (\<lambda>t. t_action t = ''sell'') txs). duration_raises fi txs sell")
  case True
  from durations_loop_raises [OF True] True show ?thesis
    by simp
next
  case False
  then have "\<forall>sell \<in> set (filter (\<lambda>t. t_action t = ''sell'') txs). \<not> duration_raises fi txs sell"
    by blast
  from durations_loop_returns [OF this, of "[]"] False show ?thesis
    unfolding spec_durations_def by simp
qed

lemma duration_score_spec: "duration_score_of ds = spec_duration_score ds"
  by (simp add: duration_score_of_def spec_duration_score_def Let_def)

lemma duration_score_range: "0 \<le> duration_score_of ds \<and> duration_score_of ds \<le> 100"
  by (simp add: duration_score_of_def Let_def)

lemma filter_split_length:
  "length (filter P xs) + length (filter (\<lambda>x. \<not> P x) xs) = length xs"
  by (induction xs) simp_all

lemma spec_total_loss_nonneg:
  assumes "\<forall>t \<in> set txs. 0 \<le> t_quantity t"
  shows "0 \<le> spec_total_loss txs"
proof -
  have "\<And>sell. sell \<in> set (filter (\<lambda>sell. \<not> is_win txs sell) (scored_sells txs))
          \<Longrightarrow> 0 \<le> (flat_mean_buy_price txs (t_symbol sell) - t_price sell) * t_quantity sell"
    using assms by (auto simp: is_win_def scored_sells_def intro!: mult_nonneg_nonneg)
  then show ?thesis
    unfolding spec_total_loss_def by (intro sum_list_nonneg) auto
qed

lemma tally_total_trades:
  "wins (foldl (tally_sell (group_by_symbol (filter (\<lambda>t. t_action t = ''buy'') txs)))
           \<lparr>wins = 0, losses = 0, total_profit = 0, total_loss = 0\<rparr>
           (filter (\<lambda>t. t_action t = ''sell'') txs))
   + losses (foldl (tally_sell (group_by_symbol (filter (\<lambda>t. t_action t = ''buy'') txs)))
           \<lparr>wins = 0, losses = 0, total_profit = 0, total_loss = 0\<rparr>
           (filter (\<lambda>t. t_action t = ''sell'') txs))
   = length (scored_sells txs)"
proof -
  let ?bm = "group_by_symbol (filter (\<lambda>t. t_action t = ''buy'') txs)"
  let ?sells = "filter (\<lambda>t. t_action t = ''sell'') txs"
  let ?acc = "foldl (tally_sell ?bm) \<lparr>wins = 0, losses = 0, total_profit = 0, total_loss = 0\<rparr> ?sells"
  have w: "wins ?acc = length (filter (is_win txs) (scored_sells txs))"
    unfolding tally_fold_wins scored_sells_alt by simp
  have l: "losses ?acc = length (filter (\<lambda>t. \<not> is_win txs t) (scored_sells txs))"
    unfolding tally_fold_losses scored_sells_alt by simp
  show ?thesis
    unfolding w l by (rule filter_split_length)
qed

text \<open>No sell with a buy of its symbol: the score is 40 and no timestamp is subtracted.\<close>

lemma strategy_without_scored_sell:
  assumes "scored_sells txs = []"
  shows "compute_strategy_score fi txs = Inr 40"
proof -
  from assms tally_total_trades [of txs] show ?thesis
    by (simp add: compute_strategy_score_def Let_def)
qed

text \<open>
  With a scored sell, the second loop runs; the score is the weighted sum of the claim,
  unless the loop raises.
\<close>

lemma strategy_with_scored_sell:
  assumes "scored_sells txs \<noteq> []"
  shows "compute_strategy_score fi txs
         = (case durations_loop fi (group_by_symbol (filter (\<lambda>t. t_action t = ''buy'') txs)) []
                  (filter (\<lambda>t. t_action t = ''sell'') txs) of
              Inl e \<Rightarrow> Inl e
            | Inr durations \<Rightarrow>
                Inr (max 0 (min 100
                  (real (wins (foldl (tally_sell (group_by_symbol (filter (\<lambda>t. t_action t = ''buy'') txs)))
                           \<lparr>wins = 0, losses = 0, total_profit = 0, total_loss = 0\<rparr>
                           (filter (\<lambda>t. t_action t = ''sell'') txs)))
                     / real (length (scored_sells txs)) * 40
                   + (min (if total_loss (foldl (tally_sell (group_by_symbol (filter (\<lambda>t. t_action t = ''buy'') txs)))
                           \<lparr>wins = 0, losses = 0, total_profit = 0, total_loss = 0\<rparr>
                           (filter (\<lambda>t. t_action t = ''sell'') txs)) > 0
                           then total_profit (foldl (tally_sell (group_by_symbol (filter (\<lambda>t. t_action t = ''buy'') txs)))
                           \<lparr>wins = 0, losses = 0, total_profit = 0, total_loss = 0\<rparr>
                           (filter (\<lambda>t. t_action t = ''sell'') txs))
                                / total_loss (foldl (tally_sell (group_by_symbol (filter (\<lambda>t. t_action t = ''buy'') txs)))
                           \<lparr>wins = 0, losses = 0, total_profit = 0, total_loss = 0\<rparr>
                           (filter (\<lambda>t. t_action t = ''sell'') txs))
                           else 2) 3 / 3) * 30
                   + (duration_score_of durations / 100) * 30))))"
proof -
  let ?bm = "group_by_symbol (filter (\<lambda>t. t_action t = ''buy'') txs)"
  let ?sells = "filter (\<lambda>t. t_action t = ''sell'') txs"
  let ?acc = "foldl (tally_sell ?bm) \<lparr>wins = 0, losses = 0, total_profit = 0, total_loss = 0\<rparr> ?sells"
  have sells: "?sells \<noteq> []"
    using assms by (auto simp: scored_sells_def filter_empty_conv)
  have s': "(?sells = []) = False"
    using sells by simp
  have t': "(wins ?acc + losses ?acc = 0) = False"
    using assms tally_total_trades [of txs] by simp
  have c: "\<And>x::real. x * 100 / 100 = x"
    by simp
  show ?thesis
    unfolding compute_strategy_score_def Let_def s' t' if_False c
    unfolding tally_total_trades ..
qed

lemma strategy_returns_or_raises:
  "(if strategy_raises fi txs
    then compute_strategy_score fi txs = Inl TypeError
    else \<exists>v. compute_strategy_score fi txs = Inr v \<and> 0 \<le> v \<and> v \<le> 100)"
proof (cases "scored_sells txs = []")
  case True
  then show ?thesis
    by (simp add: strategy_without_scored_sell strategy_raises_def)
next
  case False
  show ?thesis
  proof (cases "\<exists>sell \<in> set (filter (\<lambda>t. t_action t = ''sell'') txs). duration_raises fi txs sell")
    case True
    with False have r: "strategy_raises fi txs"
      by (simp add: strategy_raises_def)
    from True have "compute_strategy_score fi txs = Inl TypeError"
      unfolding strategy_with_scored_sell [OF False] durations_spec by simp
    with r show ?thesis
      by simp
  next
    case nr: False
    then have r: "\<not> strategy_raises fi txs"
      by (simp add: strategy_raises_def)
    from nr have "\<exists>v. compute_strategy_score fi txs = Inr v \<and> 0 \<le> v \<and> v \<le> 100"
      unfolding strategy_with_scored_sell [OF False] durations_spec by simp
    with r show ?thesis
      by simp
  qed
qed

lemma all_naive_never_raises:
  assumes "all_naive fi txs"
  shows "\<not> strategy_raises fi txs"
proof -
  have "\<not> duration_raises fi txs sell" if sell: "sell \<in> set txs" for sell
  proof (cases "parse_timestamp fi (t_timestamp sell)")
    case None
    then show ?thesis
      by (simp add: duration_raises_def)
  next
    case (Some sell_ts)
    with assms sell have ns: "is_naive sell_ts"
      by (auto simp: all_naive_def)
    show ?thesis
    proof (cases "buys_of_symbol txs (t_symbol sell)")
      case Nil
      with Some show ?thesis
        by (simp add: duration_raises_def first_listed_buy_time_def)
    next
      case (Cons b bs)
      then have "b \<in> set (buys_of_symbol txs (t_symbol sell))"
        by simp
      then have b: "b \<in> set txs"
        by (simp add: buys_of_symbol_def)
      show ?thesis
      proof (cases "parse_timestamp fi (t_timestamp b)")
        case None
        with Some Cons show ?thesis
          by (simp add: duration_raises_def first_listed_buy_time_def)
      next
        case bt: (Some buy_ts)
        with assms b have "is_naive buy_ts"
          by (auto simp: all_naive_def)
        with ns Some Cons bt show ?thesis
          by (simp add: duration_raises_def first_listed_buy_time_def)
      qed
    qed
  qed
  then show ?thesis
    by (auto simp: strategy_raises_def)
qed

lemma strategy_refines_spec:
  assumes "scored_sells txs \<noteq> []"
    and "\<forall>t \<in> set txs. 0 \<le> t_quantity t"
    and "\<not> strategy_raises fi txs"
  shows "compute_strategy_score fi txs = Inr (strategy_spec (first_listed_buy_time fi) fi txs)"
proof -
  let ?bm = "group_by_symbol (filter (\<lambda>t. t_action t = ''buy'') txs)"
  let ?sells = "filter (\<lambda>t. t_action t = ''sell'') txs"
  let ?acc = "foldl (tally_sell ?bm) \<lparr>wins = 0, losses = 0, total_profit = 0, total_loss = 0\<rparr> ?sells"
  have w: "wins ?acc = length (filter (is_win txs) (scored_sells txs))"
    unfolding tally_fold_wins scored_sells_alt by simp
  have p: "total_profit ?acc = spec_total_profit txs"
    unfolding tally_fold_profit scored_sells_alt spec_total_profit_def by simp
  have lo: "total_loss ?acc = spec_total_loss txs"
    unfolding tally_fold_loss scored_sells_alt spec_total_loss_def by simp
  have wr: "real (wins ?acc) / real (length (scored_sells txs)) = spec_win_rate txs"
    unfolding w spec_win_rate_def ..
  have pl: "min (if total_loss ?acc > 0 then total_profit ?acc / total_loss ?acc else 2) 3
            = spec_pl_ratio txs"
    using spec_total_loss_nonneg [OF assms(2)]
    by (auto simp: p lo spec_pl_ratio_def)
  from assms(1,3)
  have nr: "(\<exists>sell \<in> set ?sells. duration_raises fi txs sell) = False"
    by (simp add: strategy_raises_def)
  have "compute_strategy_score fi txs
        = Inr (max 0 (min 100
            (real (wins ?acc) / real (length (scored_sells txs)) * 40
             + (min (if total_loss ?acc > 0 then total_profit ?acc / total_loss ?acc else 2) 3 / 3) * 30
             + (duration_score_of (spec_durations (first_listed_buy_time fi) fi txs) / 100) * 30)))"
    unfolding strategy_with_scored_sell [OF assms(1)] durations_spec nr if_False sum.case ..
  also have "\<dots> = Inr (strategy_spec (first_listed_buy_time fi) fi txs)"
    unfolding wr pl duration_score_spec strategy_spec_def ..
  finally show ?thesis .
qed

text \<open>
  Claim C3 (the code departs from it).  Wins, losses, the profit/loss ratio with its cap and
  its default, the duration bands and the weighted sum are as the claim says
  (\<open>strategy_refines_spec\<close>); the duration is not.  The claim measures a sell against the
  first buy of its symbol, the code against \<open>sym_buys[0]\<close>, the buy that stands first in the
  list, and \<open>get_transactions\<close> returns the list newest first.  With a buy of X on 1 March,
  a sell on 6 March and another buy on 11 March, listed newest first, the code takes the
  duration as 6 March minus 11 March, minus 5 days, scores the duration 30 and returns 69;
  measured from the first buy the duration is 5 days, its score 80 and the strategy
  score 84.
\<close>

theorem C3_duration_taken_from_latest_buy:
  "(let fi = (\<lambda>s. if s = ''2024-03-11T00:00:00'' then Inr (Naive 864000000000)
                   else if s = ''2024-03-06T00:00:00'' then Inr (Naive 432000000000)
                   else if s = ''2024-03-01T00:00:00'' then Inr (Naive 0)
                   else Inl ValueError);
        txs = [\<lparr>t_id = ''tx-3'', t_symbol = ''X'', t_type = ''stock'', t_action = ''buy'',
                 t_quantity = 1, t_price = 10, t_total = 10,
                 t_timestamp = ''2024-03-11T00:00:00''\<rparr>,
               \<lparr>t_id = ''tx-2'', t_symbol = ''X'', t_type = ''stock'', t_action = ''sell'',
                 t_quantity = 1, t_price = 12, t_total = 12,
                 t_timestamp = ''2024-03-06T00:00:00''\<rparr>,
               \<lparr>t_id = ''tx-1'', t_symbol = ''X'', t_type = ''stock'', t_action = ''buy'',
                 t_quantity = 1, t_price = 10, t_total = 10,
                 t_timestamp = ''2024-03-01T00:00:00''\<rparr>]
    in compute_strategy_score fi txs = Inr 69
       \<and> spec_durations (first_listed_buy_time fi) fi txs = [- 5]
       \<and> spec_durations (earliest_buy_time fi) fi txs = [5]
       \<and> strategy_spec (earliest_buy_time fi) fi txs = 84)"
  by code_simp

subsection \<open>Range of the scores\<close>

text \<open>
  Claim C6, as stated: every score computer returns a value in [0, 100] for every input.
  The strategy computer does not return on every input.  \<open>_parse_timestamp\<close> strips only
  \<open>Z\<close> and \<open>+00:00\<close>, so a timestamp with another UTC offset parses to an offset-aware
  datetime; with a sell stamped \<open>+05:30\<close> and the buy of its symbol stamped without offset,
  \<open>sell_ts - buy_ts\<close> raises \<open>TypeError\<close>, and the computer with it.
\<close>

theorem C6_strategy_raises_on_mixed_offsets:
  "compute_strategy_score
     (\<lambda>s. if s = ''2024-03-06T00:00:00+05:30'' then Inr (Aware 432000000000 19800000000)
           else if s = ''2024-03-01T00:00:00'' then Inr (Naive 0)
           else Inl ValueError)
     [\<lparr>t_id = ''tx-2'', t_symbol = ''X'', t_type = ''stock'', t_action = ''sell'',
       t_quantity = 1, t_price = 12, t_total = 12,
       t_timestamp = ''2024-03-06T00:00:00+05:30''\<rparr>,
      \<lparr>t_id = ''tx-1'', t_symbol = ''X'', t_type = ''stock'', t_action = ''buy'',
       t_quantity = 1, t_price = 10, t_total = 10,
       t_timestamp = ''2024-03-01T00:00:00''\<rparr>]
   = Inl TypeError"
  by code_simp

text \<open>
  Claim C6, amended.  The risk, discipline, psychology and consistency computers return,
  on every input, a value between 0 and 100 (the consistency computer never raises).  The
  strategy computer either returns a value between 0 and 100 or raises \<open>TypeError\<close>; it
  raises exactly when some sell has a buy of its symbol and, for some sell, its timestamp
  and the timestamp of the first listed buy of its symbol both parse, one offset-naive and
  the other offset-aware.  So it returns whenever every timestamp that parses is
  offset-naive.  The empty collections are inputs like any other: there the scores are 50
  or 55 (risk, by the sign of the balance), 50 or 20 (discipline, by the trade count), 40
  (strategy), 100 (psychology) and 50 (consistency with no active day in 30).
\<close>

theorem C6_scores_within_0_100_unless_mixed_offsets:
  "(if strategy_raises fi transactions
    then compute_strategy_score fi transactions = Inl TypeError
    else \<exists>v. compute_strategy_score fi transactions = Inr v \<and> 0 \<le> v \<and> v \<le> 100)
   \<and> (all_naive fi transactions \<longrightarrow> \<not> strategy_raises fi transactions)
   \<and> (0 \<le> compute_risk_score holdings balance \<and> compute_risk_score holdings balance \<le> 100)
   \<and> (0 \<le> compute_discipline_score checklists n \<and> compute_discipline_score checklists n \<le> 100)
   \<and> (0 \<le> compute_psychology_score triggers \<and> compute_psychology_score triggers \<le> 100)
   \<and> (\<exists>v. compute_consistency_score history active_days total_days = Inr v \<and> 0 \<le> v \<and> v \<le> 100)
   \<and> compute_risk_score [] balance = (if balance \<le> 0 then 50 else 55)
   \<and> compute_discipline_score [] n = (if n = 0 then 50 else 20)
   \<and> compute_strategy_score fi [] = Inr 40
   \<and> compute_psychology_score [] = 100
   \<and> compute_consistency_score [] 0 30 = Inr 50"
  using strategy_returns_or_raises [of fi transactions] all_naive_never_raises [of fi transactions]
    risk_range discipline_range psychology_range consistency_range scores_on_empty_input
  by blast

theorem C6_scores_within_0_100_unless_mixed_offsets_witness:
  "all_naive
     (\<lambda>s. if s = ''2024-03-06T00:00:00'' then Inr (Naive 432000000000)
           else if s = ''2024-03-01T00:00:00'' then Inr (Naive 0)
           else Inl ValueError)
     [\<lparr>t_id = ''tx-2'', t_symbol = ''X'', t_type = ''stock'', t_action = ''sell'',
       t_quantity = 1, t_price = 12, t_total = 12, t_timestamp = ''2024-03-06T00:00:00''\<rparr>,
      \<lparr>t_id = ''tx-1'', t_symbol = ''X'', t_type = ''stock'', t_action = ''buy'',
       t_quantity = 1, t_price = 10, t_total = 10, t_timestamp = ''2024-03-01T00:00:00''\<rparr>]
   \<and> (\<exists>v. compute_strategy_score
            (\<lambda>s. if s = ''2024-03-06T00:00:00'' then Inr (Naive 432000000000)
                  else if s = ''2024-03-01T00:00:00'' then Inr (Naive 0)
                  else Inl ValueError)
            [\<lparr>t_id = ''tx-2'', t_symbol = ''X'', t_type = ''stock'', t_action = ''sell'',
              t_quantity = 1, t_price = 12, t_total = 12, t_timestamp = ''2024-03-06T00:00:00''\<rparr>,
             \<lparr>t_id = ''tx-1'', t_symbol = ''X'', t_type = ''stock'', t_action = ''buy'',
              t_quantity = 1, t_price = 10, t_total = 10,
              t_timestamp = ''2024-03-01T00:00:00''\<rparr>] = Inr v
          \<and> 0 \<le> v \<and> v \<le> 100)"
proof -
  let ?fi = "\<lambda>s. if s = ''2024-03-06T00:00:00'' then Inr (Naive 432000000000)
           else if s = ''2024-03-01T00:00:00'' then Inr (Naive 0)
           else (Inl ValueError :: py_exception + datetime)"
  let ?txs = "[\<lparr>t_id = ''tx-2'', t_symbol = ''X'', t_type = ''stock'', t_action = ''sell'',
       t_quantity = 1, t_price = 12, t_total = 12, t_timestamp = ''2024-03-06T00:00:00''\<rparr>,
      \<lparr>t_id = ''tx-1'', t_symbol = ''X'', t_type = ''stock'', t_action = ''buy'',
       t_quantity = 1, t_price = 10, t_total = 10, t_timestamp = ''2024-03-01T00:00:00''\<rparr>]"
  have n: "all_naive ?fi ?txs"
    by code_simp
  note c6 = C6_scores_within_0_100_unless_mixed_offsets [of ?fi ?txs]
  from c6 [THEN conjunct2, THEN conjunct1] n have nr: "\<not> strategy_raises ?fi ?txs"
    by (rule mp)
  have "\<exists>v. compute_strategy_score ?fi ?txs = Inr v \<and> 0 \<le> v \<and> v \<le> 100"
    using c6 [THEN conjunct1] unfolding if_not_P [OF nr] .
  with n show ?thesis
    by (rule conjI)
qed

subsection \<open>Grouping by symbol\<close>

lemma group_append_map:
  assumes "distinct ks"
  shows "group_append (map (\<lambda>s. (s, g s)) ks) k v
         = (if k \<in> set ks then map (\<lambda>s. (s, if s = k then g s @ [v] else g s)) ks
            else map (\<lambda>s. (s, g s)) ks @ [(k, [v])])"
  using assms by (induction ks) auto

lemma group_by_symbol_snoc:
  "group_by_symbol (txs @ [tx]) = group_append (group_by_symbol txs) (t_symbol tx) tx"
  by (simp add: group_by_symbol_def)

text \<open>The dictionary: its keys are the symbols in the order they first occur, each with
  the transactions of that symbol in list order.\<close>

lemma group_by_symbol_char:
  "group_by_symbol txs
     = map (\<lambda>s. (s, filter (\<lambda>t. t_symbol t = s) txs)) (rev (remdups (rev (map t_symbol txs))))"
proof (induction txs rule: rev_induct)
  case Nil
  show ?case by (simp add: group_by_symbol_def)
next
  case (snoc tx txs)
  let ?ks = "rev (remdups (rev (map t_symbol txs)))"
  have d: "distinct ?ks" by simp
  have s: "set ?ks = t_symbol ` set txs" by simp
  show ?case
  proof (cases "t_symbol tx \<in> t_symbol ` set txs")
    case True
    then have ks: "rev (remdups (rev (map t_symbol (txs @ [tx])))) = ?ks"
      by simp
    have "group_by_symbol (txs @ [tx])
          = map (\<lambda>s. (s, if s = t_symbol tx then filter (\<lambda>t. t_symbol t = s) txs @ [tx]
                          else filter (\<lambda>t. t_symbol t = s) txs)) ?ks"
      unfolding group_by_symbol_snoc snoc.IH using True s
      by (subst group_append_map [OF d]) simp
    also have "\<dots> = map (\<lambda>s. (s, filter (\<lambda>t. t_symbol t = s) (txs @ [tx]))) ?ks"
      by (rule map_cong) auto
    finally show ?thesis unfolding ks .
  next
    case False
    then have ks: "rev (remdups (rev (map t_symbol (txs @ [tx])))) = ?ks @ [t_symbol tx]"
      by simp
    from False have nf: "\<And>t. t \<in> set txs \<Longrightarrow> t_symbol t \<noteq> t_symbol tx"
      by (metis imageI)
    have none: "filter (\<lambda>t. t_symbol t = t_symbol tx) txs = []"
      using nf by (simp add: filter_empty_conv)
    have "group_by_symbol (txs @ [tx])
          = map (\<lambda>s. (s, filter (\<lambda>t. t_symbol t = s) txs)) ?ks @ [(t_symbol tx, [tx])]"
      unfolding group_by_symbol_snoc snoc.IH using False s
      by (subst group_append_map [OF d]) simp
    also have "map (\<lambda>s. (s, filter (\<lambda>t. t_symbol t = s) txs)) ?ks
               = map (\<lambda>s. (s, filter (\<lambda>t. t_symbol t = s) (txs @ [tx]))) ?ks"
      using False by (intro map_cong) auto
    finally show ?thesis unfolding ks using none by simp
  qed
qed

subsection \<open>Panic-sell detector\<close>

lemma less_than_naive:
  "less_datetime ts (Naive n)
     = (if is_naive ts then Inr (instant ts < n) else Inl TypeError)"
  by (simp add: less_datetime_def)

lemma panic_buy_scan_some:
  "panic_buy_scan fi sy sell_ts sell_price buys = Inr (Some a)
   \<Longrightarrow> alert_symbol a = Some sy \<and> alert_pattern_type a = ''panic_sell''
       \<and> (\<exists>buy \<in> set buys. \<exists>buy_ts.
            parse_timestamp fi (t_timestamp buy) = Some buy_ts
            \<and> is_naive sell_ts = is_naive buy_ts
            \<and> 0 < t_price buy
            \<and> 0 < total_seconds (instant sell_ts - instant buy_ts) / 3600
            \<and> total_seconds (instant sell_ts - instant buy_ts) / 3600 \<le> 48
            \<and> ((sell_price - t_price buy) / t_price buy) * 100 < - 10)"
  by (induction buys)
     (auto simp: Let_def sub_datetime_def split: option.splits if_splits)

lemma panic_buy_scan_none:
  "panic_buy_scan fi sy sell_ts sell_price buys = Inr None
   \<Longrightarrow> \<not> (\<exists>buy \<in> set buys. \<exists>buy_ts.
            parse_timestamp fi (t_timestamp buy) = Some buy_ts
            \<and> is_naive sell_ts = is_naive buy_ts
            \<and> 0 < t_price buy
            \<and> 0 < total_seconds (instant sell_ts - instant buy_ts) / 3600
            \<and> total_seconds (instant sell_ts - instant buy_ts) / 3600 \<le> 48
            \<and> ((sell_price - t_price buy) / t_price buy) * 100 < - 10)"
  by (induction buys)
     (auto simp: Let_def sub_datetime_def split: option.splits if_splits)

lemma panic_buy_scan_returns:
  assumes "is_naive sell_ts"
    and "all_naive fi buys"
  shows "\<exists>r. panic_buy_scan fi sy sell_ts sell_price buys = Inr r"
  using assms(2)
  by (induction buys)
     (auto simp: Let_def sub_datetime_def all_naive_def assms(1) split: option.splits)

lemma panic_sell_scan_some:
  "panic_sell_scan fi now sy buys sells = Inr (Some a)
   \<Longrightarrow> alert_symbol a = Some sy \<and> alert_pattern_type a = ''panic_sell''
       \<and> (\<exists>sell \<in> set sells. \<exists>sell_ts.
            parse_timestamp fi (t_timestamp sell) = Some sell_ts
            \<and> is_naive sell_ts
            \<and> instant sell_ts \<ge> now - timedelta_days 7
            \<and> (\<exists>buy \<in> set buys. \<exists>buy_ts.
                  parse_timestamp fi (t_timestamp buy) = Some buy_ts
                  \<and> is_naive sell_ts = is_naive buy_ts
                  \<and> 0 < t_price buy
                  \<and> 0 < total_seconds (instant sell_ts - instant buy_ts) / 3600
                  \<and> total_seconds (instant sell_ts - instant buy_ts) / 3600 \<le> 48
                  \<and> ((t_price sell - t_price buy) / t_price buy) * 100 < - 10))"
proof (induction sells)
  case Nil
  then show ?case by simp
next
  case (Cons sell sells)
  show ?case
  proof (cases "parse_timestamp fi (t_timestamp sell)")
    case None
    with Cons show ?thesis by simp
  next
    case (Some sell_ts)
    show ?thesis
    proof (cases "is_naive sell_ts \<and> \<not> instant sell_ts < now - timedelta_days 7")
      case False
      with Cons Some show ?thesis
        by (auto simp: less_than_naive split: if_splits)
    next
      case True
      show ?thesis
      proof (cases "panic_buy_scan fi sy sell_ts (t_price sell) buys")
        case (Inl e)
        with Cons.prems Some True show ?thesis
          by (simp add: less_than_naive)
      next
        case (Inr r)
        show ?thesis
        proof (cases r)
          case None
          with Cons Some True Inr show ?thesis
            by (simp add: less_than_naive)
        next
          case (Some b)
          with Cons.prems \<open>parse_timestamp fi (t_timestamp sell) = Some sell_ts\<close> True Inr
          have ab: "a = b"
            by (simp add: less_than_naive)
          from panic_buy_scan_some [of fi sy sell_ts "t_price sell" buys b] Inr Some
          have "alert_symbol b = Some sy \<and> alert_pattern_type b = ''panic_sell''
                \<and> (\<exists>buy \<in> set buys. \<exists>buy_ts.
                      parse_timestamp fi (t_timestamp buy) = Some buy_ts
                      \<and> is_naive sell_ts = is_naive buy_ts
                      \<and> 0 < t_price buy
                      \<and> 0 < total_seconds (instant sell_ts - instant buy_ts) / 3600
                      \<and> total_seconds (instant sell_ts - instant buy_ts) / 3600 \<le> 48
                      \<and> ((t_price sell - t_price buy) / t_price buy) * 100 < - 10)"
            by simp
          with ab True \<open>parse_timestamp fi (t_timestamp sell) = Some sell_ts\<close> show ?thesis
            by (intro conjI; simp; force)
        qed
      qed
    qed
  qed
qed

lemma panic_sell_scan_none:
  "panic_sell_scan fi now sy buys sells = Inr None
   \<Longrightarrow> \<not> (\<exists>sell \<in> set sells. \<exists>sell_ts.
            parse_timestamp fi (t_timestamp sell) = Some sell_ts
            \<and> is_naive sell_ts
            \<and> instant sell_ts \<ge> now - timedelta_days 7
            \<and> (\<exists>buy \<in> set buys. \<exists>buy_ts.
                  parse_timestamp fi (t_timestamp buy) = Some buy_ts
                  \<and> is_naive sell_ts = is_naive buy_ts
                  \<and> 0 < t_price buy
                  \<and> 0 < total_seconds (instant sell_ts - instant buy_ts) / 3600
                  \<and> total_seconds (instant sell_ts - instant buy_ts) / 3600 \<le> 48
                  \<and> ((t_price sell - t_price buy) / t_price buy) * 100 < - 10))"
proof (induction sells)
  case Nil
  then show ?case by simp
next
  case (Cons sell sells)
  show ?case
  proof (cases "parse_timestamp fi (t_timestamp sell)")
    case None
    with Cons show ?thesis by simp
  next
    case (Some sell_ts)
    show ?thesis
    proof (cases "is_naive sell_ts \<and> \<not> instant sell_ts < now - timedelta_days 7")
      case False
      with Cons Some show ?thesis
        by (auto simp: less_than_naive split: if_splits)
    next
      case True
      with Cons.prems Some
      have scan: "panic_buy_scan fi sy sell_ts (t_price sell) buys = Inr None"
        and rest: "panic_sell_scan fi now sy buys sells = Inr None"
        by (auto simp: less_than_naive split: sum.splits option.splits)
      from panic_buy_scan_none [OF scan] Cons.IH [OF rest] Some show ?thesis
        by auto
    qed
  qed
qed

lemma panic_sell_scan_returns:
  assumes "all_naive fi buys"
    and "all_naive fi sells"
  shows "\<exists>r. panic_sell_scan fi now sy buys sells = Inr r"
  using assms(2)
proof (induction sells)
  case Nil
  show ?case by simp
next
  case (Cons sell sells)
  from Cons.prems have rest: "all_naive fi sells"
    by (simp add: all_naive_def)
  note ih = Cons.IH [OF rest]
  show ?case
  proof (cases "parse_timestamp fi (t_timestamp sell)")
    case None
    with ih show ?thesis by simp
  next
    case (Some sell_ts)
    with Cons.prems have n: "is_naive sell_ts"
      by (simp add: all_naive_def)
    from panic_buy_scan_returns [OF n assms(1), of sy "t_price sell"]
    obtain r where "panic_buy_scan fi sy sell_ts (t_price sell) buys = Inr r"
      by blast
    with Some n ih show ?thesis
      by (cases r) (auto simp: less_than_naive)
  qed
qed

lemma panic_pair_alt:
  "panic_pair fi now sell buy
   = (t_action sell = ''sell'' \<and> t_action buy = ''buy'' \<and> t_symbol buy = t_symbol sell
      \<and> (\<exists>sell_ts buy_ts.
            parse_timestamp fi (t_timestamp sell) = Some sell_ts
            \<and> parse_timestamp fi (t_timestamp buy) = Some buy_ts
            \<and> is_naive sell_ts \<and> is_naive buy_ts
            \<and> instant sell_ts \<ge> now - timedelta_days 7
            \<and> 0 < t_price buy
            \<and> 0 < total_seconds (instant sell_ts - instant buy_ts) / 3600
            \<and> total_seconds (instant sell_ts - instant buy_ts) / 3600 \<le> 48
            \<and> ((t_price sell - t_price buy) / t_price buy) * 100 < - 10))"
  by (auto simp: panic_pair_def split: option.splits)

lemma pair_in_symbol:
  "(\<exists>sell \<in> set (filter (\<lambda>t. t_action t = ''sell'') (filter (\<lambda>t. t_symbol t = sy) txs)).
      \<exists>sell_ts.
        parse_timestamp fi (t_timestamp sell) = Some sell_ts
        \<and> is_naive sell_ts
        \<and> instant sell_ts \<ge> now - timedelta_days 7
        \<and> (\<exists>buy \<in> set (filter (\<lambda>t. t_action t = ''buy'') (filter (\<lambda>t. t_symbol t = sy) txs)).
              \<exists>buy_ts.
                parse_timestamp fi (t_timestamp buy) = Some buy_ts
                \<and> is_naive sell_ts = is_naive buy_ts
                \<and> 0 < t_price buy
                \<and> 0 < total_seconds (instant sell_ts - instant buy_ts) / 3600
                \<and> total_seconds (instant sell_ts - instant buy_ts) / 3600 \<le> 48
                \<and> ((t_price sell - t_price buy) / t_price buy) * 100 < - 10))
   = (\<exists>sell \<in> set txs. \<exists>buy \<in> set txs. t_symbol sell = sy \<and> panic_pair fi now sell buy)"
  unfolding panic_pair_alt
  by (simp only: set_filter mem_Collect_eq) blast

lemma panic_sell_for_symbol_result:
  assumes "panic_sell_for_symbol fi now sy (filter (\<lambda>t. t_symbol t = sy) txs) = Inr found"
  shows "(found = []
          \<and> \<not> (\<exists>sell \<in> set txs. \<exists>buy \<in> set txs. t_symbol sell = sy \<and> panic_pair fi now sell buy))
       \<or> (\<exists>a. found = [a] \<and> alert_symbol a = Some sy \<and> alert_pattern_type a = ''panic_sell''
              \<and> (\<exists>sell \<in> set txs. \<exists>buy \<in> set txs. t_symbol sell = sy \<and> panic_pair fi now sell buy))"
proof -
  let ?buys = "filter (\<lambda>t. t_action t = ''buy'') (filter (\<lambda>t. t_symbol t = sy) txs)"
  let ?sells = "filter (\<lambda>t. t_action t = ''sell'') (filter (\<lambda>t. t_symbol t = sy) txs)"
  from assms obtain r where scan: "panic_sell_scan fi now sy ?buys ?sells = Inr r"
    and found: "found = (case r of None \<Rightarrow> [] | Some a \<Rightarrow> [a])"
    by (auto simp: panic_sell_for_symbol_def Let_def split: sum.splits option.splits)
  show ?thesis
  proof (cases r)
    case None
    with scan have "panic_sell_scan fi now sy ?buys ?sells = Inr None"
      by simp
    from panic_sell_scan_none [OF this] have
      "\<not> (\<exists>sell \<in> set txs. \<exists>buy \<in> set txs. t_symbol sell = sy \<and> panic_pair fi now sell buy)"
      unfolding pair_in_symbol .
    with None found show ?thesis
      by simp
  next
    case (Some a)
    with scan have "panic_sell_scan fi now sy ?buys ?sells = Inr (Some a)"
      by simp
    from panic_sell_scan_some [OF this] have
      "alert_symbol a = Some sy \<and> alert_pattern_type a = ''panic_sell''
       \<and> (\<exists>sell \<in> set txs. \<exists>buy \<in> set txs. t_symbol sell = sy \<and> panic_pair fi now sell buy)"
      unfolding pair_in_symbol .
    with Some found show ?thesis
      by simp
  qed
qed

lemma all_naive_filter: "all_naive fi txs \<Longrightarrow> all_naive fi (filter P txs)"
  by (simp add: all_naive_def)

lemma panic_sell_for_symbol_returns:
  assumes "all_naive fi txns"
  shows "\<exists>found. panic_sell_for_symbol fi now sy txns = Inr found"
proof -
  from panic_sell_scan_returns [OF all_naive_filter [OF assms] all_naive_filter [OF assms]]
  obtain r where "panic_sell_scan fi now sy (filter (\<lambda>t. t_action t = ''buy'') txns)
                    (filter (\<lambda>t. t_action t = ''sell'') txns) = Inr r"
    by blast
  then show ?thesis
    by (cases r) (simp_all add: panic_sell_for_symbol_def)
qed

lemma panic_sell_loop_result:
  assumes "collect_alerts (\<lambda>(sy, txns). panic_sell_for_symbol fi now sy txns) acc
             (map (\<lambda>s. (s, filter (\<lambda>t. t_symbol t = s) txs)) ks) = Inr alerts"
  shows "map alert_symbol alerts
           = map alert_symbol acc
             @ map Some (filter (\<lambda>s. \<exists>sell \<in> set txs. \<exists>buy \<in> set txs.
                                       t_symbol sell = s \<and> panic_pair fi now sell buy) ks)
         \<and> (\<forall>a \<in> set alerts. a \<in> set acc \<or> alert_pattern_type a = ''panic_sell'')"
  using assms
proof (induction ks arbitrary: acc)
  case Nil
  then show ?case by simp
next
  case (Cons k ks)
  from Cons.prems obtain found
    where f: "panic_sell_for_symbol fi now k (filter (\<lambda>t. t_symbol t = k) txs) = Inr found"
      and rest: "collect_alerts (\<lambda>(sy, txns). panic_sell_for_symbol fi now sy txns) (acc @ found)
                   (map (\<lambda>s. (s, filter (\<lambda>t. t_symbol t = s) txs)) ks) = Inr alerts"
    by (auto split: sum.splits)
  note ih = Cons.IH [OF rest]
  from panic_sell_for_symbol_result [OF f] ih show ?case
    by auto
qed

lemma panic_sell_loop_returns:
  assumes "all_naive fi txs"
  shows "\<exists>alerts. collect_alerts (\<lambda>(sy, txns). panic_sell_for_symbol fi now sy txns) acc
                     (map (\<lambda>s. (s, filter (\<lambda>t. t_symbol t = s) txs)) ks) = Inr alerts"
proof (induction ks arbitrary: acc)
  case Nil
  show ?case by simp
next
  case (Cons k ks)
  from panic_sell_for_symbol_returns [OF all_naive_filter [OF assms]]
  obtain found
    where "panic_sell_for_symbol fi now k (filter (\<lambda>t. t_symbol t = k) txs) = Inr found"
    by blast
  with Cons.IH [of "acc @ found"] show ?case
    by simp
qed

lemma detect_panic_sell_result:
  assumes "detect_panic_sell fi now txs = Inr alerts"
  shows "distinct (map alert_symbol alerts)
         \<and> (\<forall>a \<in> set alerts. alert_pattern_type a = ''panic_sell'')
         \<and> (\<forall>s. (Some s \<in> set (map alert_symbol alerts))
                  = (\<exists>sell \<in> set txs. \<exists>buy \<in> set txs.
                       t_symbol sell = s \<and> panic_pair fi now sell buy))
         \<and> length alerts \<le> card (t_symbol ` set txs)"
proof -
  let ?ks = "rev (remdups (rev (map t_symbol txs)))"
  let ?P = "\<lambda>s. \<exists>sell \<in> set txs. \<exists>buy \<in> set txs. t_symbol sell = s \<and> panic_pair fi now sell buy"
  from assms have "collect_alerts (\<lambda>(sy, txns). panic_sell_for_symbol fi now sy txns) []
                     (map (\<lambda>s. (s, filter (\<lambda>t. t_symbol t = s) txs)) ?ks) = Inr alerts"
    unfolding detect_panic_sell_def group_by_symbol_char .
  from panic_sell_loop_result [OF this]
  have syms: "map alert_symbol alerts = map Some (filter ?P ?ks)"
    and pat: "\<forall>a \<in> set alerts. alert_pattern_type a = ''panic_sell''"
    by simp_all
  have d: "distinct (map alert_symbol alerts)"
    unfolding syms by (simp add: distinct_map inj_on_def)
  have iff: "\<forall>s. (Some s \<in> set (map alert_symbol alerts)) = ?P s"
    unfolding syms by auto
  have "length alerts = length (map alert_symbol alerts)"
    by simp
  also have "\<dots> \<le> length ?ks"
    unfolding syms length_map by (rule length_filter_le)
  also have "\<dots> = card (t_symbol ` set txs)"
    by (simp add: length_remdups_card_conv)
  finally have "length alerts \<le> card (t_symbol ` set txs)" .
  with d pat iff show ?thesis
    by blast
qed

lemma detect_panic_sell_returns:
  assumes "all_naive fi txs"
  shows "\<exists>alerts. detect_panic_sell fi now txs = Inr alerts"
  unfolding detect_panic_sell_def group_by_symbol_char
  by (rule panic_sell_loop_returns [OF assms])

lemma in_set_map_source: "x \<in> set (map f xs) \<Longrightarrow> \<exists>a. a \<in> set xs"
  by auto

text \<open>
  Claim C2, as stated: the detector yields at most one alert per run.  It does not: with a
  qualifying pair in each of two symbols it yields two alerts, one for each.
\<close>

theorem C2_two_symbols_two_alerts:
  "map_sum id (map alert_symbol)
     (detect_panic_sell
        (\<lambda>s. if s = ''2024-03-01T10:00:00'' then Inr (Naive 36000000000)
              else if s = ''2024-03-01T11:00:00'' then Inr (Naive 39600000000)
              else if s = ''2024-03-01T12:00:00'' then Inr (Naive 43200000000)
              else Inl ValueError)
        86400000000
        [\<lparr>t_id = ''tx-4'', t_symbol = ''BBB'', t_type = ''stock'', t_action = ''sell'',
          t_quantity = 1, t_price = 40, t_total = 40, t_timestamp = ''2024-03-01T12:00:00''\<rparr>,
         \<lparr>t_id = ''tx-3'', t_symbol = ''AAA'', t_type = ''stock'', t_action = ''sell'',
          t_quantity = 1, t_price = 80, t_total = 80, t_timestamp = ''2024-03-01T11:00:00''\<rparr>,
         \<lparr>t_id = ''tx-2'', t_symbol = ''BBB'', t_type = ''stock'', t_action = ''buy'',
          t_quantity = 1, t_price = 50, t_total = 50, t_timestamp = ''2024-03-01T10:00:00''\<rparr>,
         \<lparr>t_id = ''tx-1'', t_symbol = ''AAA'', t_type = ''stock'', t_action = ''buy'',
          t_quantity = 1, t_price = 100, t_total = 100, t_timestamp = ''2024-03-01T10:00:00''\<rparr>])
   = Inr [Some ''BBB'', Some ''AAA'']"
  by code_simp

text \<open>
  Claim C2, amended.  The detector yields at most one alert per symbol.  Whenever it
  returns, its alerts are panic-sell alerts for pairwise different symbols, and a symbol has
  an alert exactly when it has a qualifying pair (a sell no older than 7 days and a buy of
  the same symbol, at a positive price, more than 0 and at most 48 hours before it, sold
  more than 10 per cent below the buy price); so there are at most as many alerts as
  symbols.  The scan stops at the first qualifying pair of a symbol and goes on with the
  next symbol.  The detector returns whenever every timestamp that parses is offset-naive.
\<close>

theorem C2_one_alert_per_symbol:
  "(all_naive fi txs \<longrightarrow> (\<exists>alerts. detect_panic_sell fi now txs = Inr alerts))
   \<and> (\<forall>alerts. detect_panic_sell fi now txs = Inr alerts \<longrightarrow>
         distinct (map alert_symbol alerts)
         \<and> (\<forall>a \<in> set alerts. alert_pattern_type a = ''panic_sell'')
         \<and> (\<forall>s. (Some s \<in> set (map alert_symbol alerts))
                  = (\<exists>sell \<in> set txs. \<exists>buy \<in> set txs.
                       t_symbol sell = s \<and> panic_pair fi now sell buy))
         \<and> length alerts \<le> card (t_symbol ` set txs))"
  using detect_panic_sell_returns [of fi txs now] detect_panic_sell_result [of fi now txs]
  by blast

theorem C2_one_alert_per_symbol_witness:
  "all_naive
     (\<lambda>s. if s = ''2024-03-01T10:00:00'' then Inr (Naive 36000000000)
           else if s = ''2024-03-01T11:00:00'' then Inr (Naive 39600000000)
           else Inl ValueError)
     [\<lparr>t_id = ''tx-2'', t_symbol = ''AAA'', t_type = ''stock'', t_action = ''sell'',
       t_quantity = 1, t_price = 80, t_total = 80, t_timestamp = ''2024-03-01T11:00:00''\<rparr>,
      \<lparr>t_id = ''tx-1'', t_symbol = ''AAA'', t_type = ''stock'', t_action = ''buy'',
       t_quantity = 1, t_price = 100, t_total = 100, t_timestamp = ''2024-03-01T10:00:00''\<rparr>]
   \<and> (\<exists>alerts.
         detect_panic_sell
           (\<lambda>s. if s = ''2024-03-01T10:00:00'' then Inr (Naive 36000000000)
                 else if s = ''2024-03-01T11:00:00'' then Inr (Naive 39600000000)
                 else Inl ValueError)
           86400000000
           [\<lparr>t_id = ''tx-2'', t_symbol = ''AAA'', t_type = ''stock'', t_action = ''sell'',
             t_quantity = 1, t_price = 80, t_total = 80, t_timestamp = ''2024-03-01T11:00:00''\<rparr>,
            \<lparr>t_id = ''tx-1'', t_symbol = ''AAA'', t_type = ''stock'', t_action = ''buy'',
             t_quantity = 1, t_price = 100, t_total = 100,
             t_timestamp = ''2024-03-01T10:00:00''\<rparr>] = Inr alerts
         \<and> distinct (map alert_symbol alerts)
         \<and> Some ''AAA'' \<in> set (map alert_symbol alerts)
         \<and> (\<exists>a \<in> set alerts. alert_pattern_type a = ''panic_sell''))"
proof -
  let ?fi = "\<lambda>s. if s = ''2024-03-01T10:00:00'' then Inr (Naive 36000000000)
           else if s = ''2024-03-01T11:00:00'' then Inr (Naive 39600000000)
           else (Inl ValueError :: py_exception + datetime)"
  let ?sell = "\<lparr>t_id = ''tx-2'', t_symbol = ''AAA'', t_type = ''stock'', t_action = ''sell'',
      t_quantity = 1, t_price = 80, t_total = 80, t_timestamp = ''2024-03-01T11:00:00''\<rparr>"
  let ?buy = "\<lparr>t_id = ''tx-1'', t_symbol = ''AAA'', t_type = ''stock'', t_action = ''buy'',
      t_quantity = 1, t_price = 100, t_total = 100, t_timestamp = ''2024-03-01T10:00:00''\<rparr>"
  have n: "all_naive ?fi [?sell, ?buy]"
    by code_simp
  have p: "panic_pair ?fi 86400000000 ?sell ?buy"
    by code_simp
  have s: "t_symbol ?sell = ''AAA''"
    by simp
  have ex: "\<exists>sell \<in> set [?sell, ?buy]. \<exists>buy \<in> set [?sell, ?buy].
      t_symbol sell = ''AAA'' \<and> panic_pair ?fi 86400000000 sell buy"
  proof (rule bexI [where x = ?sell], rule bexI [where x = ?buy], rule conjI)
    show "t_symbol ?sell = ''AAA''"
      by (rule s)
    show "panic_pair ?fi 86400000000 ?sell ?buy"
      by (rule p)
    show "?buy \<in> set [?sell, ?buy]"
      by (rule list.set_intros(2), rule list.set_intros(1))
    show "?sell \<in> set [?sell, ?buy]"
      by (rule list.set_intros(1))
  qed
  note c2 = C2_one_alert_per_symbol [of ?fi "[?sell, ?buy]" 86400000000]
  from mp [OF c2 [THEN conjunct1] n]
  obtain alerts where d: "detect_panic_sell ?fi 86400000000 [?sell, ?buy] = Inr alerts" ..
  note r = mp [OF spec [OF c2 [THEN conjunct2]] d]
  note dist = r [THEN conjunct1]
  note pat = r [THEN conjunct2, THEN conjunct1]
  note iff = r [THEN conjunct2, THEN conjunct2, THEN conjunct1, THEN spec, of "''AAA''"]
  from iffD2 [OF iff ex]
  have mem: "Some ''AAA'' \<in> set (map alert_symbol alerts)" .
  from in_set_map_source [OF mem] obtain a where a: "a \<in> set alerts" ..
  have pa: "alert_pattern_type a = ''panic_sell''"
    using bspec [OF pat a] .
  have ex_alert: "\<exists>a \<in> set alerts. alert_pattern_type a = ''panic_sell''"
    using pa a by (rule bexI)
  from n d dist mem ex_alert show ?thesis
    by blast
qed

subsection \<open>Unparseable timestamps\<close>

lemma parse_timestamp_none:
  "(parse_timestamp fi ts = None)
   = (ts = [] \<or> (\<exists>e. fi (replace ''+00:00'' [] (replace ''Z'' ''+00:00'' ts)) = Inl e))"
  by (auto simp: parse_timestamp_def split: sum.splits py_exception.splits)

lemma filter_raising_skip:
  assumes "\<And>x. \<not> P x \<Longrightarrow> p x = Inr False"
  shows "filter_raising p (filter P xs) = filter_raising p xs"
  by (induction xs) (auto simp: assms split: sum.splits)

lemma timestamp_at_least_unparsed: "\<not> parses fi t \<Longrightarrow> timestamp_at_least fi b t = Inr False"
  by (simp add: parses_def timestamp_at_least_def)

lemma recent_buy_unparsed: "\<not> parses fi t \<Longrightarrow> recent_buy fi b t = Inr False"
  by (simp add: recent_buy_def timestamp_at_least_unparsed)

lemma overtrading_skips_unparsed:
  "detect_overtrading fi now (filter (parses fi) txs) = detect_overtrading fi now txs"
  by (simp add: detect_overtrading_def filter_raising_skip timestamp_at_least_unparsed)

lemma sentiment_fomo_skips_unparsed:
  "detect_sentiment_fomo fi now look (filter (parses fi) txs) = detect_sentiment_fomo fi now look txs"
  by (simp add: detect_sentiment_fomo_def filter_raising_skip recent_buy_unparsed)

lemma neutral_trader_skips_unparsed:
  "compute_neutral_trader fi now look (filter (parses fi) txs) = compute_neutral_trader fi now look txs"
  by (simp add: compute_neutral_trader_def filter_raising_skip recent_buy_unparsed)

lemma fomo_scan_skips_unparsed:
  "fomo_scan fi now ps rs (filter (parses fi) txns) = fomo_scan fi now ps rs txns"
  by (induction txns arbitrary: ps rs)
     (auto simp: parses_def Let_def split: option.splits sum.splits)

lemma fomo_buy_for_symbol_skips_unparsed:
  "fomo_buy_for_symbol fi now sy (filter (parses fi) txns) = fomo_buy_for_symbol fi now sy txns"
  by (simp add: fomo_buy_for_symbol_def fomo_scan_skips_unparsed)

lemma panic_buy_scan_skips_unparsed:
  "panic_buy_scan fi sy sell_ts sell_price (filter (parses fi) buys)
     = panic_buy_scan fi sy sell_ts sell_price buys"
proof (induction buys)
  case Nil
  show ?case by simp
next
  case (Cons buy buys)
  show ?case
  proof (cases "parses fi buy")
    case True
    then show ?thesis
      by (auto simp: Cons.IH Let_def split: option.splits sum.splits)
  next
    case False
    then have "parse_timestamp fi (t_timestamp buy) = None"
      by (simp add: parses_def)
    with False show ?thesis
      by (simp add: Cons.IH)
  qed
qed

lemma panic_sell_scan_skips_unparsed:
  "panic_sell_scan fi now sy (filter (parses fi) buys) (filter (parses fi) sells)
     = panic_sell_scan fi now sy buys sells"
proof (induction sells)
  case Nil
  show ?case by simp
next
  case (Cons sell sells)
  show ?case
  proof (cases "parses fi sell")
    case True
    then show ?thesis
      by (auto simp: Cons.IH panic_buy_scan_skips_unparsed split: option.splits sum.splits)
  next
    case False
    then have "parse_timestamp fi (t_timestamp sell) = None"
      by (simp add: parses_def)
    with False show ?thesis
      by (simp add: Cons.IH)
  qed
qed

lemma panic_sell_for_symbol_skips_unparsed:
  "panic_sell_for_symbol fi now sy (filter (parses fi) txns) = panic_sell_for_symbol fi now sy txns"
proof -
  have c: "\<And>Q. filter Q (filter (parses fi) txns) = filter (parses fi) (filter Q txns)"
    by (simp add: conj_commute)
  show ?thesis
    unfolding panic_sell_for_symbol_def Let_def c panic_sell_scan_skips_unparsed ..
qed

lemma min_parsed_timestamp_skips_unparsed:
  "min_parsed_timestamp fi (filter (parses fi) buys) = min_parsed_timestamp fi buys"
proof -
  have "List.map_filter (\<lambda>t. parse_timestamp fi (t_timestamp t)) (filter (parses fi) buys)
        = List.map_filter (\<lambda>t. parse_timestamp fi (t_timestamp t)) buys"
    by (induction buys) (auto simp: parses_def split: option.splits)
  then show ?thesis
    by (simp add: min_parsed_timestamp_def)
qed

lemma min_parsed_timestamp_unparsed:
  assumes "filter (parses fi) buys = []"
  shows "min_parsed_timestamp fi buys = Inr None"
proof -
  have "min_parsed_timestamp fi buys = min_parsed_timestamp fi (filter (parses fi) buys)"
    by (simp only: min_parsed_timestamp_skips_unparsed)
  also have "\<dots> = Inr None"
    unfolding assms by (simp add: min_parsed_timestamp_def)
  finally show ?thesis .
qed

lemma held_buys_of_filtered:
  "filter (\<lambda>t. t_symbol t = sy \<and> t_action t = ''buy'') (filter (parses fi) txs)
     = filter (parses fi) (filter (\<lambda>t. t_symbol t = sy \<and> t_action t = ''buy'') txs)"
  by (simp add: conj_commute)

lemma holding_loser_alert_skips_unparsed:
  "holding_loser_alert fi now (filter (parses fi) txs) h = holding_loser_alert fi now txs h"
proof (cases "filter (parses fi) (filter (\<lambda>t. t_symbol t = h_symbol h \<and> t_action t = ''buy'') txs) = []")
  case True
  from min_parsed_timestamp_unparsed [OF True] True show ?thesis
    unfolding holding_loser_alert_def Let_def held_buys_of_filtered
    by (simp del: filter_filter)
next
  case False
  have "filter (\<lambda>t. t_symbol t = h_symbol h \<and> t_action t = ''buy'') txs \<noteq> []"
  proof
    assume a: "filter (\<lambda>t. t_symbol t = h_symbol h \<and> t_action t = ''buy'') txs = []"
    from False show False
      unfolding a by simp
  qed
  with False show ?thesis
    unfolding holding_loser_alert_def Let_def held_buys_of_filtered
      min_parsed_timestamp_skips_unparsed
    by (simp del: filter_filter)
qed

lemma holding_losers_skips_unparsed:
  "detect_holding_losers fi now hs (filter (parses fi) txs) = detect_holding_losers fi now hs txs"
proof -
  have "holding_loser_alert fi now (filter (parses fi) txs) = holding_loser_alert fi now txs"
    by (rule ext) (rule holding_loser_alert_skips_unparsed)
  then show ?thesis
    by (simp add: detect_holding_losers_def)
qed

lemma hold_duration_loop_skips_unparsed:
  "hold_duration_loop fi now (filter (parses fi) txs) m hs = hold_duration_loop fi now txs m hs"
proof (induction hs arbitrary: m)
  case Nil
  show ?case by simp
next
  case (Cons h hs)
  show ?case
  proof (cases "filter (parses fi) (filter (\<lambda>t. t_symbol t = h_symbol h \<and> t_action t = ''buy'') txs) = []")
    case True
    from min_parsed_timestamp_unparsed [OF True] True show ?thesis
      unfolding hold_duration_loop.simps Let_def held_buys_of_filtered Cons.IH
      by (simp del: filter_filter)
  next
    case False
    have "filter (\<lambda>t. t_symbol t = h_symbol h \<and> t_action t = ''buy'') txs \<noteq> []"
    proof
      assume a: "filter (\<lambda>t. t_symbol t = h_symbol h \<and> t_action t = ''buy'') txs = []"
      from False show False
        unfolding a by simp
    qed
    with False show ?thesis
      unfolding hold_duration_loop.simps Let_def held_buys_of_filtered
        min_parsed_timestamp_skips_unparsed Cons.IH
      by (simp del: filter_filter)
  qed
qed

lemma hold_duration_skips_unparsed:
  "compute_hold_duration fi now hs (filter (parses fi) txs) = compute_hold_duration fi now hs txs"
  by (simp add: compute_hold_duration_def hold_duration_loop_skips_unparsed)

lemma buys_on_day_skips_unparsed:
  "buys_on_day fi now (filter (parses fi) txs) d = buys_on_day fi now txs d"
  unfolding buys_on_day_def filter_filter
  by (rule filter_cong) (auto simp: parses_def split: option.splits)

lemma cash_reserve_skips_unparsed:
  "compute_cash_reserve fi now b hs (filter (parses fi) txs) = compute_cash_reserve fi now b hs txs"
  by (simp add: compute_cash_reserve_def Let_def buys_on_day_skips_unparsed)

lemma hype_buy_dates_skips_unparsed:
  "hype_buy_dates fi now ds (filter (parses fi) txs) = hype_buy_dates fi now ds txs"
  by (induction txs arbitrary: ds)
     (auto simp: parses_def split: option.splits sum.splits)

lemma hype_resistant_skips_unparsed:
  "compute_hype_resistant fi now (filter (parses fi) txs) = compute_hype_resistant fi now txs"
  by (simp add: compute_hype_resistant_def hype_buy_dates_skips_unparsed)

lemma sell_duration_unparsed:
  "\<not> parses fi sell \<Longrightarrow> sell_duration fi bm sell = Inr None"
  by (simp add: parses_def sell_duration_def)

lemma durations_loop_skips_unparsed:
  "durations_loop fi bm ds (filter (parses fi) sells) = durations_loop fi bm ds sells"
  by (induction sells arbitrary: ds)
     (auto simp: sell_duration_unparsed split: sum.splits option.splits)

lemma sell_duration_unparsed_first_buy:
  assumes "get_list bm (t_symbol sell) = b # bs"
    and "\<not> parses fi b"
  shows "sell_duration fi bm sell = Inr None"
  using assms by (simp add: parses_def sell_duration_def split: option.splits)

end
